theory Spec2Isabelle
  imports Complex_Main "HOL-Library.AList" "HOL-Library.Char_ord" "HOL-Library.List_Lexorder"
begin

section \<open>Data model\<close>

text \<open>
  A rate law is a sympy expression tree.  The importer's own code only looks at two
  things of such a tree: whether a node is a \<open>Symbol\<close> (and then its name) and the
  \<open>args\<close> of any other node.  A number is a node without arguments.
\<close>

datatype expr =
    Symbol string
  | Number real
  | Apply string "expr list"

text \<open>
  A Python \<open>dict\<close> from strings to strings keeps its keys in insertion order and has
  every key once; it is an association list here.  Two dicts are equal in Python when
  they have the same items, whatever the order.
\<close>

type_synonym dict = "(string \<times> string) list"

definition dict_eq :: "dict \<Rightarrow> dict \<Rightarrow> bool" where
  "dict_eq a b \<longleftrightarrow>
     list_all (\<lambda>k. map_of a k = map_of b k) (map fst a @ map fst b)"

record concept =
  name :: string
  identifiers :: dict
  context_map :: dict
  units :: "expr option"

text \<open>
  \<open>Concept(name=n)\<close>: the other fields take their defaults.
\<close>

definition Concept :: "string \<Rightarrow> concept" where
  "Concept n = \<lparr>name = n, identifiers = [], context_map = [], units = None\<rparr>"

text \<open>
  \<open>c == d\<close> on two concepts compares them field by field (they are pydantic models).
\<close>

definition concept_eq :: "concept \<Rightarrow> concept \<Rightarrow> bool" where
  "concept_eq c d \<longleftrightarrow>
     name c = name d \<and> dict_eq (identifiers c) (identifiers d)
     \<and> dict_eq (context_map c) (context_map d) \<and> units c = units d"

text \<open>\<open>c in cs\<close> on a list of concepts.\<close>

definition concept_in :: "concept \<Rightarrow> concept list \<Rightarrow> bool" where
  "concept_in c cs \<longleftrightarrow> list_ex (concept_eq c) cs"

text \<open>
  The template variants, each with its role slots and its optional rate law.  The
  arguments are in the order controller(s), subject, outcome, rate law, leaving out
  the slots a variant does not have.
\<close>

datatype template =
    NaturalConversion concept concept "expr option"
  | ControlledConversion concept concept concept "expr option"
  | GroupedControlledConversion "concept list" concept concept "expr option"
  | NaturalProduction concept "expr option"
  | ControlledProduction concept concept "expr option"
  | GroupedControlledProduction "concept list" concept "expr option"
  | NaturalDegradation concept "expr option"
  | ControlledDegradation concept concept "expr option"
  | GroupedControlledDegradation "concept list" concept "expr option"

datatype error =
    AssertionError
  | ValidationError
  | KeyError
  | IndexError
  | AttributeError string

text \<open>
  Modelled from the spec: the constructors of the template classes
  (mira.metamodel.templates is not among the sources).  Every variant has the role
  slots of the table of variants, all of them required, so that a call which passes
  \<open>None\<close> for a slot is rejected at construction.  The number of concepts in
  \<open>controllers\<close> is not checked.
\<close>

definition new_NaturalConversion ::
  "concept option \<Rightarrow> concept option \<Rightarrow> expr option \<Rightarrow> error + template" where
  "new_NaturalConversion subj outc r =
     (case (subj, outc) of
        (Some s, Some p) \<Rightarrow> Inr (NaturalConversion s p r)
      | _ \<Rightarrow> Inl ValidationError)"

definition new_ControlledConversion ::
  "concept option \<Rightarrow> concept option \<Rightarrow> concept option \<Rightarrow> expr option
     \<Rightarrow> error + template" where
  "new_ControlledConversion contr subj outc r =
     (case (contr, subj, outc) of
        (Some c, Some s, Some p) \<Rightarrow> Inr (ControlledConversion c s p r)
      | _ \<Rightarrow> Inl ValidationError)"

definition new_GroupedControlledConversion ::
  "concept list \<Rightarrow> concept option \<Rightarrow> concept option \<Rightarrow> expr option
     \<Rightarrow> error + template" where
  "new_GroupedControlledConversion contrs subj outc r =
     (case (subj, outc) of
        (Some s, Some p) \<Rightarrow> Inr (GroupedControlledConversion contrs s p r)
      | _ \<Rightarrow> Inl ValidationError)"

definition new_NaturalProduction :: "concept option \<Rightarrow> expr option \<Rightarrow> error + template" where
  "new_NaturalProduction outc r =
     (case outc of Some p \<Rightarrow> Inr (NaturalProduction p r) | None \<Rightarrow> Inl ValidationError)"

definition new_NaturalDegradation :: "concept option \<Rightarrow> expr option \<Rightarrow> error + template" where
  "new_NaturalDegradation subj r =
     (case subj of Some s \<Rightarrow> Inr (NaturalDegradation s r) | None \<Rightarrow> Inl ValidationError)"

text \<open>The number of controllers a template lists.\<close>

fun controller_count :: "template \<Rightarrow> nat" where
  "controller_count (NaturalConversion _ _ _) = 0"
| "controller_count (ControlledConversion _ _ _ _) = 1"
| "controller_count (GroupedControlledConversion cs _ _ _) = length cs"
| "controller_count (NaturalProduction _ _) = 0"
| "controller_count (ControlledProduction _ _ _) = 1"
| "controller_count (GroupedControlledProduction cs _ _) = length cs"
| "controller_count (NaturalDegradation _ _) = 0"
| "controller_count (ControlledDegradation _ _ _) = 1"
| "controller_count (GroupedControlledDegradation cs _ _) = length cs"

section \<open>Bilayer importer (mira/sources/bilayer.py)\<close>

record box =
  inputs :: "concept list"
  outputs :: "concept list"
  controllers :: "concept list"

text \<open>
  \<open>box_to_template\<close>.  The two assertions come first.  A concept is always truthy, so
  \<open>not input\<close> holds exactly when \<open>input\<close> is \<open>None\<close>.  With one controller the
  function always calls \<open>ControlledConversion\<close>, with two or more always
  \<open>GroupedControlledConversion\<close>, whatever inputs and outputs the box has.
\<close>

definition box_to_template :: "box \<Rightarrow> error + template" where
  "box_to_template b =
     (if \<not> length (inputs b) \<le> 1 then Inl AssertionError
      else if \<not> length (outputs b) \<le> 1 then Inl AssertionError
      else
        let input = (if inputs b \<noteq> [] then Some (inputs b ! 0) else None);
            output = (if outputs b \<noteq> [] then Some (outputs b ! 0) else None)
        in if controllers b = [] then
             (if input = None then new_NaturalProduction output None
              else if output = None then new_NaturalDegradation input None
              else new_NaturalConversion input output None)
           else if length (controllers b) = 1 then
             new_ControlledConversion (Some (controllers b ! 0)) input output None
           else
             new_GroupedControlledConversion (controllers b) input output None)"

text \<open>
  The bilayer document: \<open>Qin\<close> lists the variable names, \<open>Box\<close> the boxes (only their
  number is used), \<open>Wn\<close> the pairs (efflux, effusion), \<open>Wa\<close> the pairs
  (influx, infusion) and \<open>Win\<close> the pairs (arg, call), all indices counting from 1.
\<close>

record bilayer =
  Qin :: "string list"
  Box :: nat
  Wn :: "(int \<times> int) list"
  Wa :: "(int \<times> int) list"
  Win :: "(int \<times> int) list"

text \<open>
  \<open>concepts[k]\<close>, where \<open>concepts\<close> is the dict with the keys 1 to \<open>len(Qin)\<close>.
\<close>

definition concepts_get :: "string list \<Rightarrow> int \<Rightarrow> error + concept" where
  "concepts_get q k =
     (if 1 \<le> k \<and> k \<le> int (length q) then Inr (Concept (q ! nat (k - 1)))
      else Inl KeyError)"

text \<open>
  The position that \<open>xs[i]\<close> reads in a Python list of length \<open>n\<close>: a negative index
  counts from the end, and an index out of range raises.
\<close>

definition list_index :: "nat \<Rightarrow> int \<Rightarrow> error + nat" where
  "list_index n i =
     (if 0 \<le> i \<and> i < int n then Inr (nat i)
      else if - int n \<le> i \<and> i < 0 then Inr (nat (int n + i))
      else Inl IndexError)"

text \<open>A loop over a list whose body may raise: the first error ends the loop.\<close>

fun for_each :: "('a \<Rightarrow> 's \<Rightarrow> error + 's) \<Rightarrow> 'a list \<Rightarrow> 's \<Rightarrow> error + 's" where
  "for_each f [] s = Inr s"
| "for_each f (x # xs) s =
     (case f x s of Inl e \<Rightarrow> Inl e | Inr s' \<Rightarrow> for_each f xs s')"

definition add_consumption :: "string list \<Rightarrow> int \<times> int \<Rightarrow> box list \<Rightarrow> error + box list" where
  "add_consumption q w boxes =
     (case list_index (length boxes) (fst w - 1) of
        Inl e \<Rightarrow> Inl e
      | Inr j \<Rightarrow>
          (case concepts_get q (snd w) of
             Inl e \<Rightarrow> Inl e
           | Inr c \<Rightarrow> Inr (boxes[j := (boxes ! j)\<lparr>inputs := inputs (boxes ! j) @ [c]\<rparr>])))"

definition add_production :: "string list \<Rightarrow> int \<times> int \<Rightarrow> box list \<Rightarrow> error + box list" where
  "add_production q w boxes =
     (case list_index (length boxes) (fst w - 1) of
        Inl e \<Rightarrow> Inl e
      | Inr j \<Rightarrow>
          (case concepts_get q (snd w) of
             Inl e \<Rightarrow> Inl e
           | Inr c \<Rightarrow> Inr (boxes[j := (boxes ! j)\<lparr>outputs := outputs (boxes ! j) @ [c]\<rparr>])))"

definition add_control :: "string list \<Rightarrow> int \<times> int \<Rightarrow> box list \<Rightarrow> error + box list" where
  "add_control q w boxes =
     (case concepts_get q (fst w) of
        Inl e \<Rightarrow> Inl e
      | Inr c \<Rightarrow>
          (case list_index (length boxes) (snd w - 1) of
             Inl e \<Rightarrow> Inl e
           | Inr j \<Rightarrow>
               if \<not> concept_in c (inputs (boxes ! j)) then
                 Inr (boxes[j := (boxes ! j)\<lparr>controllers := controllers (boxes ! j) @ [c]\<rparr>])
               else Inr boxes))"

text \<open>The list of the results of a function that may raise, in order.\<close>

fun map_err :: "('a \<Rightarrow> error + 'b) \<Rightarrow> 'a list \<Rightarrow> error + 'b list" where
  "map_err f [] = Inr []"
| "map_err f (x # xs) =
     (case f x of
        Inl e \<Rightarrow> Inl e
      | Inr y \<Rightarrow> (case map_err f xs of Inl e \<Rightarrow> Inl e | Inr ys \<Rightarrow> Inr (y # ys)))"

text \<open>
  \<open>template_model_from_bilayer\<close>; the result is the list of templates of the
  \<open>TemplateModel\<close> it builds.
\<close>

definition template_model_from_bilayer :: "bilayer \<Rightarrow> error + template list" where
  "template_model_from_bilayer bj =
     (let boxes0 = replicate (Box bj) \<lparr>inputs = [], outputs = [], controllers = []\<rparr>
      in case for_each (add_consumption (Qin bj)) (Wn bj) boxes0 of
           Inl e \<Rightarrow> Inl e
         | Inr boxes1 \<Rightarrow>
             (case for_each (add_production (Qin bj)) (Wa bj) boxes1 of
                Inl e \<Rightarrow> Inl e
              | Inr boxes2 \<Rightarrow>
                  (case for_each (add_control (Qin bj)) (Win bj) boxes2 of
                     Inl e \<Rightarrow> Inl e
                   | Inr boxes3 \<Rightarrow> map_err box_to_template boxes3)))"

section \<open>Reaction-network importer (mira/sources/sbml/processor.py)\<close>

subsection \<open>The computer algebra the importer calls\<close>

text \<open>
  The importer calls four operations of the sympy library on a rate law: its
  \<open>free_symbols\<close>, its derivative \<open>diff\<close> by a symbol, its division by a symbol and
  the substitution \<open>subs\<close> of a number for a symbol.  The library is not part of the
  repository, so the operations are a parameter of every function that calls them, and
  the theorems hold for any such operations.
\<close>

record sympy =
  free_symbols :: "expr \<Rightarrow> string set"
  diff :: "expr \<Rightarrow> string \<Rightarrow> expr"
  divide :: "expr \<Rightarrow> string \<Rightarrow> expr"
  subs :: "expr \<Rightarrow> string \<Rightarrow> real \<Rightarrow> expr"

text \<open>
  \<open>variables_from_sympy_expr\<close>: the names of the symbols in a tree.  Every node of a
  tree is an expression, so the assertion of the function holds at each of them.
\<close>

fun variables_from_sympy_expr :: "expr \<Rightarrow> string set" where
  "variables_from_sympy_expr (Symbol n) = {n}"
| "variables_from_sympy_expr (Number x) = {}"
| "variables_from_sympy_expr (Apply f as) = \<Union> (set (map variables_from_sympy_expr as))"

text \<open>
  \<open>e in symbols\<close>, for an expression \<open>e\<close> and a set of symbols: only a symbol can be
  a member of such a set.
\<close>

definition expr_in :: "expr \<Rightarrow> string set \<Rightarrow> bool" where
  "expr_in e symbols = (case e of Symbol n \<Rightarrow> n \<in> symbols | _ \<Rightarrow> False)"

subsection \<open>The documents\<close>

text \<open>
  A species of the document, with the concept that \<open>_extract_concept\<close> builds for it.
\<close>

record sbml_species =
  species_id :: string
  species_name :: string
  initial_concentration :: real
  species_concept :: concept

text \<open>
  A reaction, with the species its modifiers, reactants and products refer to.  The
  field \<open>kinetic_law\<close> is the formula of the kinetic law as \<open>sympy.parse_expr\<close> reads it
  against the symbol table of the model, with the assignment rules substituted.
\<close>

record reaction =
  reaction_id :: string
  reversible :: bool
  modifiers :: "string list"
  reactants :: "string list"
  products :: "string list"
  kinetic_law :: expr

text \<open>
  The model: its species, its parameters (cleaned id and value), its compartments
  (id and volume) and its reactions, each list in the order of the document.
\<close>

record sbml_model =
  species :: "sbml_species list"
  model_parameters :: "(string \<times> real) list"
  compartments :: "(string \<times> real) list"
  reactions :: "reaction list"

text \<open>
  The \<open>TemplateModel\<close>: the templates, the parameters by name and the initials by
  concept name.  Of a parameter and of an initial only the value is kept.
\<close>

record template_model =
  templates :: "template list"
  parameters :: "string \<rightharpoonup> real"
  initials :: "string \<rightharpoonup> real"

subsection \<open>Compartment volumes in a rate law\<close>

text \<open>
  The dict that a sequence of assignments \<open>d[k] = v\<close> builds: a key stays where it was
  first inserted and holds the value assigned last.
\<close>

definition dict_of :: "('k \<times> 'v) list \<Rightarrow> ('k \<times> 'v) list" where
  "dict_of kvs = fold (\<lambda>kv d. AList.update (fst kv) (snd kv) d) kvs []"

text \<open>
  One round of the loop over the compartments of \<open>extract_model\<close>.  The rate law is
  divided by the symbol of the compartment when the symbol is free in it, the rate law
  itself is not among the free symbols of its derivative, and the volume is 1.0;
  otherwise the volume is substituted for the symbol.
\<close>

definition substitute_compartment :: "sympy \<Rightarrow> string \<times> real \<Rightarrow> expr \<Rightarrow> expr" where
  "substitute_compartment ops compartment rate_expr =
     (if fst compartment \<in> free_symbols ops rate_expr
         \<and> \<not> expr_in rate_expr (free_symbols ops (diff ops rate_expr (fst compartment)))
         \<and> snd compartment = 1
      then divide ops rate_expr (fst compartment)
      else subs ops rate_expr (fst compartment) (snd compartment))"

definition substitute_compartments :: "sympy \<Rightarrow> (string \<times> real) list \<Rightarrow> expr \<Rightarrow> expr" where
  "substitute_compartments ops comps rate_expr =
     fold (substitute_compartment ops) (dict_of comps) rate_expr"

subsection \<open>From a reaction to its template\<close>

text \<open>\<open>s.startswith(p)\<close> and \<open>sub in s\<close> on strings.\<close>

definition startswith :: "string \<Rightarrow> string \<Rightarrow> bool" where
  "startswith s p \<longleftrightarrow> take (length p) s = p"

fun contains :: "string \<Rightarrow> string \<Rightarrow> bool" where
  "contains [] sub = (sub = [])"
| "contains (c # cs) sub = (startswith (c # cs) sub \<or> contains cs sub)"

text \<open>
  The species that the rate law names without the reaction declaring them as reactants
  or modifiers, in sorted order.  The products of the reaction are not taken out.
\<close>

definition implicit_modifiers ::
  "string set \<Rightarrow> string set \<Rightarrow> string list \<Rightarrow> string list \<Rightarrow> string list" where
  "implicit_modifiers rate_law_variables all_species reactant_species modifier_species =
     sorted_list_of_set
       ((rate_law_variables \<inter> all_species) - (set reactant_species \<union> set modifier_species))"

definition all_species :: "sbml_model \<Rightarrow> string set" where
  "all_species m = species_id ` set (species m)"

definition concepts :: "sbml_model \<Rightarrow> string \<rightharpoonup> concept" where
  "concepts m = map_of (rev (map (\<lambda>s. (species_id s, species_concept s)) (species m)))"

text \<open>
  \<open>_lookup_concepts_filtered\<close>: the concepts of the species that are neither reporters
  nor cumulative; a species the document does not declare raises.
\<close>

definition lookup_concepts_filtered ::
  "sbml_model \<Rightarrow> string set \<Rightarrow> string list \<Rightarrow> error + concept list" where
  "lookup_concepts_filtered m reporter_ids species_ids =
     map_err (\<lambda>sid. case concepts m sid of None \<Rightarrow> Inl KeyError | Some c \<Rightarrow> Inr c)
       (filter (\<lambda>sid. sid \<notin> reporter_ids \<and> \<not> contains sid ''cumulative'') species_ids)"

text \<open>
  The choice of the template of one reaction, from its modifiers, reactants and
  products: the list of the templates the reaction appends, none or one.  A reaction
  with one reactant and one product appends its conversion and then reaches the
  last \<open>else\<close> of the loop body, which appends nothing more.
\<close>

definition select_template ::
  "concept list \<Rightarrow> concept list \<Rightarrow> concept list \<Rightarrow> expr \<Rightarrow> template list" where
  "select_template mods reacts prods rate_expr =
     (if length reacts = 1 \<and> length prods = 1 then
        (if name (reacts ! 0) \<noteq> [] \<and> concept_eq (reacts ! 0) (prods ! 0) then []
         else if length mods = 0 then
           [NaturalConversion (reacts ! 0) (prods ! 0) (Some rate_expr)]
         else if length mods = 1 then
           [ControlledConversion (mods ! 0) (reacts ! 0) (prods ! 0) (Some rate_expr)]
         else
           [GroupedControlledConversion mods (reacts ! 0) (prods ! 0) (Some rate_expr)])
      else if reacts = [] \<and> prods = [] then []
      else if (prods \<noteq> []) \<noteq> (reacts \<noteq> []) then
        (if prods \<noteq> [] then
           [if mods = [] then NaturalProduction (prods ! 0) (Some rate_expr)
            else if length mods = 1 then
              ControlledProduction (mods ! 0) (prods ! 0) (Some rate_expr)
            else GroupedControlledProduction mods (prods ! 0) (Some rate_expr)]
         else
           [if mods = [] then NaturalDegradation (reacts ! 0) (Some rate_expr)
            else if length mods = 1 then
              ControlledDegradation (mods ! 0) (reacts ! 0) (Some rate_expr)
            else GroupedControlledDegradation mods (reacts ! 0) (Some rate_expr)])
      else [])"

text \<open>
  The body of the loop over the reactions of \<open>extract_model\<close>.  The attribute
  \<open>reversible\<close> of the reaction is not read.
\<close>

definition extract_reaction ::
  "sympy \<Rightarrow> sbml_model \<Rightarrow> string set \<Rightarrow> reaction \<Rightarrow> error + template list" where
  "extract_reaction ops m reporter_ids r =
     (let rate_expr = substitute_compartments ops (compartments m) (kinetic_law r);
          rate_law_variables = variables_from_sympy_expr rate_expr;
          modifier_species =
            modifiers r @ implicit_modifiers rate_law_variables (all_species m)
                            (reactants r) (modifiers r)
      in case lookup_concepts_filtered m reporter_ids modifier_species of
           Inl e \<Rightarrow> Inl e
         | Inr mods \<Rightarrow>
             (case lookup_concepts_filtered m reporter_ids (reactants r) of
                Inl e \<Rightarrow> Inl e
              | Inr reacts \<Rightarrow>
                  (case lookup_concepts_filtered m reporter_ids (products r) of
                     Inl e \<Rightarrow> Inl e
                   | Inr prods \<Rightarrow> Inr (select_template mods reacts prods rate_expr))))"

subsection \<open>Constant concepts\<close>

text \<open>
  The value of a role of a template is one concept or a list of concepts.
\<close>

datatype role_value = One concept | Many "concept list"

text \<open>
  Modelled from the spec: the role accessor \<open>get_concepts_by_role\<close> shared by all
  variants (mira.metamodel.templates is not among the sources).  It gives the
  concepts of a template under the names of its role slots, which are drawn from
  subject, outcome, controller and controllers.
\<close>

fun get_concepts_by_role :: "template \<Rightarrow> (string \<times> role_value) list" where
  "get_concepts_by_role (NaturalConversion s p _) =
     [(''subject'', One s), (''outcome'', One p)]"
| "get_concepts_by_role (ControlledConversion c s p _) =
     [(''controller'', One c), (''subject'', One s), (''outcome'', One p)]"
| "get_concepts_by_role (GroupedControlledConversion cs s p _) =
     [(''controllers'', Many cs), (''subject'', One s), (''outcome'', One p)]"
| "get_concepts_by_role (NaturalProduction p _) = [(''outcome'', One p)]"
| "get_concepts_by_role (ControlledProduction c p _) =
     [(''controller'', One c), (''outcome'', One p)]"
| "get_concepts_by_role (GroupedControlledProduction cs p _) =
     [(''controllers'', Many cs), (''outcome'', One p)]"
| "get_concepts_by_role (NaturalDegradation s _) = [(''subject'', One s)]"
| "get_concepts_by_role (ControlledDegradation c s _) =
     [(''controller'', One c), (''subject'', One s)]"
| "get_concepts_by_role (GroupedControlledDegradation cs s _) =
     [(''controllers'', Many cs), (''subject'', One s)]"

text \<open>
  \<open>find_constant_concepts\<close>.  The state of its two loops is the pair of the sets
  \<open>all_concepts\<close> and \<open>changing_concepts\<close>; \<open>add_role\<close> is the body of the inner loop.
\<close>

definition add_role ::
  "string \<times> role_value \<Rightarrow> string set \<times> string set \<Rightarrow> string set \<times> string set" where
  "add_role rc acc =
     (let names = (case snd rc of Many cs \<Rightarrow> name ` set cs | One c \<Rightarrow> {name c});
          changing_concepts =
            (if fst rc \<in> {''subject'', ''outcome''} then snd acc \<union> names else snd acc)
      in (fst acc \<union> names, changing_concepts))"

definition find_constant_concepts :: "template_model \<Rightarrow> string set" where
  "find_constant_concepts tm =
     (let acc = fold (\<lambda>t. fold add_role (get_concepts_by_role t)) (templates tm) ({}, {})
      in fst acc - snd acc)"

text \<open>
  \<open>replace_controller_by_constant\<close>.  The result is \<open>None\<close> where the function returns
  nothing.  The new template is built first and its rate law is set afterwards, so an
  empty list of controllers raises before a missing rate law does.  With at most two
  controllers the grouped conversion becomes a controlled conversion that keeps the
  first controller of the list, whichever name is being replaced.
\<close>

definition subs_rate_law ::
  "sympy \<Rightarrow> expr option \<Rightarrow> string \<Rightarrow> real \<Rightarrow> error + expr option" where
  "subs_rate_law ops r controller_name val =
     (case r of
        None \<Rightarrow> Inl (AttributeError ''subs'')
      | Some e \<Rightarrow> Inr (Some (subs ops e controller_name val)))"

fun replace_controller_by_constant ::
  "sympy \<Rightarrow> template \<Rightarrow> string \<Rightarrow> real \<Rightarrow> error + template option" where
  "replace_controller_by_constant ops (ControlledConversion c s p r) controller_name val =
     (if name c = controller_name then
        (case subs_rate_law ops r controller_name val of
           Inl e \<Rightarrow> Inl e
         | Inr r' \<Rightarrow> Inr (Some (NaturalConversion s p r')))
      else Inr None)"
| "replace_controller_by_constant ops (GroupedControlledConversion cs s p r) controller_name val =
     (if length cs > 2 then
        (case subs_rate_law ops r controller_name val of
           Inl e \<Rightarrow> Inl e
         | Inr r' \<Rightarrow>
             Inr (Some (GroupedControlledConversion
                          (filter (\<lambda>c. name c \<noteq> controller_name) cs) s p r')))
      else if cs = [] then Inl IndexError
      else
        (case subs_rate_law ops r controller_name val of
           Inl e \<Rightarrow> Inl e
         | Inr r' \<Rightarrow> Inr (Some (ControlledConversion (cs ! 0) s p r'))))"
| "replace_controller_by_constant ops t controller_name val = Inr None"

text \<open>
  The body of the loop of \<open>replace_constant_concepts\<close>, for one constant concept: the
  concept becomes a parameter with its initial value (1.0 without one), and every
  template is replaced by its rewriting where there is one.
\<close>

definition replace_constant_concept ::
  "sympy \<Rightarrow> string \<Rightarrow> template_model \<Rightarrow> error + template_model" where
  "replace_constant_concept ops constant_concept tm =
     (let initial_val = (case initials tm constant_concept of Some v \<Rightarrow> v | None \<Rightarrow> 1);
          params = (parameters tm)(constant_concept \<mapsto> initial_val)
      in case map_err
                (\<lambda>t. case replace_controller_by_constant ops t constant_concept initial_val of
                        Inl e \<Rightarrow> Inl e
                      | Inr None \<Rightarrow> Inr t
                      | Inr (Some new_template) \<Rightarrow> Inr new_template)
                (templates tm) of
           Inl e \<Rightarrow> Inl e
         | Inr new_templates \<Rightarrow>
             Inr (tm\<lparr>templates := new_templates, parameters := params\<rparr>))"

text \<open>
  \<open>replace_constant_concepts\<close>.  The constant concepts are found once, before the
  loop, and the loop visits this set in an order the language does not fix: the list
  \<open>visit\<close> is that order, any list that \<open>visits\<close> accepts.
\<close>

definition visits :: "template_model \<Rightarrow> string list \<Rightarrow> bool" where
  "visits tm visit \<longleftrightarrow> distinct visit \<and> set visit = find_constant_concepts tm"

definition replace_constant_concepts ::
  "sympy \<Rightarrow> string list \<Rightarrow> template_model \<Rightarrow> error + template_model" where
  "replace_constant_concepts ops visit tm = for_each (replace_constant_concept ops) visit tm"

subsection \<open>The whole model\<close>

text \<open>
  The template model that \<open>extract_model\<close> assembles before it replaces the constant
  concepts: the templates of the reactions in order, the parameters and compartment
  volumes, and the initial concentrations under the names of the species.
\<close>

definition assemble_model :: "sympy \<Rightarrow> sbml_model \<Rightarrow> string set \<Rightarrow> error + template_model" where
  "assemble_model ops m reporter_ids =
     (case map_err (extract_reaction ops m reporter_ids) (reactions m) of
        Inl e \<Rightarrow> Inl e
      | Inr tss \<Rightarrow>
          Inr \<lparr>templates = concat tss,
               parameters = map_of (rev (model_parameters m @ compartments m)),
               initials =
                 map_of (rev (map (\<lambda>s. (species_name s, initial_concentration s))
                                (species m)))\<rparr>)"

definition extract_model ::
  "sympy \<Rightarrow> string list \<Rightarrow> sbml_model \<Rightarrow> string set \<Rightarrow> error + template_model" where
  "extract_model ops visit m reporter_ids =
     (case assemble_model ops m reporter_ids of
        Inl e \<Rightarrow> Inl e
      | Inr tm \<Rightarrow> replace_constant_concepts ops visit tm)"

subsection \<open>Grounding normalization\<close>




section \<open>Petri net exporters (mira/modeling/petri.py, mira/modeling/askenet/petrinet.py)\<close>

text \<open>
  The pre-compiled model is the input of both exporters.  A variable has its key and
  the name of its concept, if any; a transition lists the keys of the variables it is
  controlled by (the controllers of its template), it consumes (the subject) and it
  produces (the outcome), and has the string and the markup of its rate law when its
  template has one.  The dicts of the model are lists in their insertion order.
\<close>

type_synonym key = string

record variable =
  var_key :: key
  var_name :: "string option"

record transition =
  control :: "key list"
  consumed :: "key list"
  produced :: "key list"
  rate_law :: "(string \<times> string) option"

record model =
  variables :: "(key \<times> variable) list"
  transitions :: "transition list"
  param_values :: "(string \<times> real) list"

text \<open>
  What the exporters store.  A transition of the ASKEM payload has the number \<open>n\<close> of
  its id \<open>t<n>\<close>, its \<open>input\<close> list, its \<open>output\<close> list and its rate.  The attributes of an
  exporter object are a dict from their names to their values, as in Python; the
  grounding and the initial value of a state and the distribution of a parameter
  are left out.
\<close>

record transition_dict =
  tid :: nat
  input_ids :: "string list"
  output_ids :: "string list"
  rate :: "(string \<times> string) option"

datatype attr =
    States "string list"
  | Transitions "transition_dict list"
  | TransitionNames "nat list"
  | Parameters "(string \<times> real) list"
  | Arcs "(nat \<times> nat) list"
  | Vmap "(key \<times> nat) list"

type_synonym object = "(string \<times> attr) list"

text \<open>\<open>self.a\<close>: an attribute that was never assigned raises.\<close>

definition getattr :: "object \<Rightarrow> string \<Rightarrow> error + attr" where
  "getattr self a = (case map_of self a of None \<Rightarrow> Inl (AttributeError a) | Some v \<Rightarrow> Inr v)"

text \<open>\<open>var.data.get('name') or str(key)\<close>.\<close>

definition state_name :: "key \<times> variable \<Rightarrow> string" where
  "state_name kv =
     (case var_name (snd kv) of
        Some n \<Rightarrow> if n \<noteq> [] then n else fst kv
      | None \<Rightarrow> fst kv)"

text \<open>\<open>[vmap[k] for k in ks]\<close>: a key that \<open>vmap\<close> does not have raises.\<close>

definition lookup_keys :: "(key \<rightharpoonup> 'h) \<Rightarrow> key list \<Rightarrow> error + 'h list" where
  "lookup_keys vmap ks =
     map_err (\<lambda>k. case vmap k of None \<Rightarrow> Inl KeyError | Some h \<Rightarrow> Inr h) ks"

text \<open>\<open>enumerate(xs)\<close>.\<close>

definition enumerate_list :: "'a list \<Rightarrow> (nat \<times> 'a) list" where
  "enumerate_list xs = zip [0..<length xs] xs"

subsection \<open>The ASKEM exporter\<close>

definition askenet_vmap :: "model \<Rightarrow> key \<rightharpoonup> string" where
  "askenet_vmap m = map_of (rev (map (\<lambda>kv. (fst kv, state_name kv)) (variables m)))"

text \<open>
  The body of the loop over the transitions: the controllers go to both lists, then
  the consumed variables to the inputs and the produced ones to the outputs.
\<close>

definition askenet_transition ::
  "(key \<rightharpoonup> string) \<Rightarrow> nat \<times> transition \<Rightarrow> error + transition_dict" where
  "askenet_transition vmap it =
     (case lookup_keys vmap (control (snd it)) of
        Inl e \<Rightarrow> Inl e
      | Inr cs \<Rightarrow>
          (case lookup_keys vmap (consumed (snd it)) of
             Inl e \<Rightarrow> Inl e
           | Inr ins \<Rightarrow>
               (case lookup_keys vmap (produced (snd it)) of
                  Inl e \<Rightarrow> Inl e
                | Inr outs \<Rightarrow>
                    Inr \<lparr>tid = fst it + 1, input_ids = cs @ ins, output_ids = cs @ outs,
                         rate = rate_law (snd it)\<rparr>)))"

text \<open>
  \<open>AskeNetPetriNetModel.__init__\<close>: the attributes it assigns are \<open>states\<close>,
  \<open>transitions\<close> and \<open>parameters\<close>.
\<close>

definition AskeNetPetriNetModel_init :: "model \<Rightarrow> error + object" where
  "AskeNetPetriNetModel_init m =
     (case map_err (askenet_transition (askenet_vmap m)) (enumerate_list (transitions m)) of
        Inl e \<Rightarrow> Inl e
      | Inr ts \<Rightarrow>
          Inr [(''states'', States (map state_name (variables m))),
               (''transitions'', Transitions ts),
               (''parameters'', Parameters (param_values m))])"

text \<open>
  \<open>AskeNetPetriNetModel.to_json\<close> builds the dict of the attributes \<open>states\<close>,
  \<open>transitions\<close>, \<open>inputs\<close> and \<open>outputs\<close>, read in this order; \<open>PetriNetModel.to_json\<close>
  is the same function.
\<close>

definition to_json :: "object \<Rightarrow> error + (string \<times> attr) list" where
  "to_json self =
     (case getattr self ''states'' of
        Inl e \<Rightarrow> Inl e
      | Inr s \<Rightarrow>
          (case getattr self ''transitions'' of
             Inl e \<Rightarrow> Inl e
           | Inr t \<Rightarrow>
               (case getattr self ''inputs'' of
                  Inl e \<Rightarrow> Inl e
                | Inr i \<Rightarrow>
                    (case getattr self ''outputs'' of
                       Inl e \<Rightarrow> Inl e
                     | Inr o' \<Rightarrow> Inr [(''S'', s), (''T'', t), (''I'', i), (''O'', o')]))))"

text \<open>
  \<open>to_pydantic\<close>, \<open>to_json_str\<close> and \<open>to_json_file\<close> call \<open>to_json\<close> first and hand its
  result to the validation of the schema, to \<open>json.dumps\<close> and to \<open>json.dump\<close> on the
  opened file; these are parameters.
\<close>

definition to_pydantic ::
  "((string \<times> attr) list \<Rightarrow> error + 'a) \<Rightarrow> object \<Rightarrow> error + 'a" where
  "to_pydantic validate self = (case to_json self of Inl e \<Rightarrow> Inl e | Inr js \<Rightarrow> validate js)"

definition to_json_str ::
  "((string \<times> attr) list \<Rightarrow> error + string) \<Rightarrow> object \<Rightarrow> error + string" where
  "to_json_str dumps self = (case to_json self of Inl e \<Rightarrow> Inl e | Inr js \<Rightarrow> dumps js)"

definition to_json_file ::
  "(string \<Rightarrow> (string \<times> attr) list \<Rightarrow> error + unit) \<Rightarrow> object \<Rightarrow> string \<Rightarrow> error + unit" where
  "to_json_file dump self fname =
     (case to_json self of Inl e \<Rightarrow> Inl e | Inr js \<Rightarrow> dump fname js)"

subsection \<open>The exporter of petri.py\<close>

definition petri_vmap :: "model \<Rightarrow> (key \<times> nat) list" where
  "petri_vmap m =
     dict_of (map (\<lambda>iv. (var_key (snd (snd iv)), fst iv + 1)) (enumerate_list (variables m)))"

text \<open>
  The arcs that one transition appends to \<open>self.inputs\<close> and \<open>self.outputs\<close>: pairs of
  the number of a state and the number of the transition.
\<close>

definition petri_transition ::
  "(key \<rightharpoonup> nat) \<Rightarrow> nat \<times> transition
     \<Rightarrow> (nat \<times> nat) list \<times> (nat \<times> nat) list
     \<Rightarrow> error + (nat \<times> nat) list \<times> (nat \<times> nat) list" where
  "petri_transition vmap it arcs =
     (case lookup_keys vmap (control (snd it)) of
        Inl e \<Rightarrow> Inl e
      | Inr cs \<Rightarrow>
          (case lookup_keys vmap (consumed (snd it)) of
             Inl e \<Rightarrow> Inl e
           | Inr ins \<Rightarrow>
               (case lookup_keys vmap (produced (snd it)) of
                  Inl e \<Rightarrow> Inl e
                | Inr outs \<Rightarrow>
                    Inr (fst arcs @ map (\<lambda>h. (h, fst it + 1)) (cs @ ins),
                         snd arcs @ map (\<lambda>h. (h, fst it + 1)) (cs @ outs)))))"

text \<open>
  \<open>PetriNetModel.__init__\<close>: it assigns \<open>states\<close>, \<open>transitions\<close>, \<open>inputs\<close>, \<open>outputs\<close>
  and \<open>vmap\<close>.
\<close>

definition PetriNetModel_init :: "model \<Rightarrow> error + object" where
  "PetriNetModel_init m =
     (case for_each (petri_transition (map_of (petri_vmap m)))
             (enumerate_list (transitions m)) ([], []) of
        Inl e \<Rightarrow> Inl e
      | Inr arcs \<Rightarrow>
          Inr [(''states'', States (map state_name (variables m))),
               (''transitions'', TransitionNames (map (\<lambda>i. i + 1) [0..<length (transitions m)])),
               (''inputs'', Arcs (fst arcs)),
               (''outputs'', Arcs (snd arcs)),
               (''vmap'', Vmap (petri_vmap m))])"

text \<open>
  The states that the arcs of a list attach to the transition with the number \<open>n\<close>.
\<close>

definition arcs_of :: "(nat \<times> nat) list \<Rightarrow> nat \<Rightarrow> nat list" where
  "arcs_of arcs n = map fst (filter (\<lambda>a. snd a = n) arcs)"

section \<open>An instance of the algebra\<close>

text \<open>
  An instance of the four operations, for running the importer on a concrete
  document: it builds the trees of the results as they are written and simplifies
  nothing, and the derivative stays unevaluated.
\<close>

fun plain_subs :: "expr \<Rightarrow> string \<Rightarrow> real \<Rightarrow> expr" where
  "plain_subs (Symbol n) c v = (if n = c then Number v else Symbol n)"
| "plain_subs (Number x) c v = Number x"
| "plain_subs (Apply f as) c v = Apply f (map (\<lambda>a. plain_subs a c v) as)"

definition plain_sympy :: sympy where
  "plain_sympy =
     \<lparr>free_symbols = variables_from_sympy_expr,
      diff = (\<lambda>e c. Apply ''Derivative'' [e, Symbol c]),
      divide = (\<lambda>e c. Apply ''Mul'' [e, Apply ''Pow'' [Symbol c, Number (- 1)]]),
      subs = plain_subs\<rparr>"

section \<open>Accessors and example documents\<close>


text \<open>
  Three concepts with the groundings that the tests of the repository use: the
  susceptible, the infected and the immune population.
\<close>

definition susceptible :: concept where
  "susceptible =
     \<lparr>name = ''S'', identifiers = [(''ido'', ''0000514'')], context_map = [], units = None\<rparr>"

definition infected :: concept where
  "infected =
     \<lparr>name = ''I'', identifiers = [(''ido'', ''0000511'')], context_map = [], units = None\<rparr>"

definition immune :: concept where
  "immune =
     \<lparr>name = ''R'', identifiers = [(''ido'', ''0000592'')], context_map = [], units = None\<rparr>"

text \<open>
  A document with the species S, I and R in one compartment \<open>c\<close> of volume 1.0, with
  the parameter \<open>k\<close> and with the given reactions.
\<close>

definition document :: "reaction list \<Rightarrow> sbml_model" where
  "document rs =
     \<lparr>species =
        [\<lparr>species_id = ''S'', species_name = ''S'', initial_concentration = 990,
          species_concept = susceptible\<rparr>,
         \<lparr>species_id = ''I'', species_name = ''I'', initial_concentration = 10,
          species_concept = infected\<rparr>,
         \<lparr>species_id = ''R'', species_name = ''R'', initial_concentration = 0,
          species_concept = immune\<rparr>],
      model_parameters = [(''k'', 3 / 10)],
      compartments = [(''c'', 1)],
      reactions = rs\<rparr>"

text \<open>
  The infection \<open>S \<rightarrow> I\<close> with the rate law \<open>k*S*I\<close>, with the modifiers of the
  argument.
\<close>

definition infection :: "string list \<Rightarrow> reaction" where
  "infection ms =
     \<lparr>reaction_id = ''infection'', reversible = False, modifiers = ms,
      reactants = [''S''], products = [''I''],
      kinetic_law = Apply ''Mul'' [Symbol ''k'', Symbol ''S'', Symbol ''I'']\<rparr>"

text \<open>The same reaction with the species S as reactant, product and modifier.\<close>

definition self_loop :: reaction where
  "self_loop =
     \<lparr>reaction_id = ''loop'', reversible = False, modifiers = [''S''],
      reactants = [''S''], products = [''S''],
      kinetic_law = Apply ''Mul'' [Symbol ''k'', Symbol ''S'', Symbol ''S'']\<rparr>"

text \<open>
  A reversible reaction \<open>S \<rightleftharpoons> R\<close> with the rate law \<open>k*S\<close>.
\<close>

definition waning :: reaction where
  "waning =
     \<lparr>reaction_id = ''waning'', reversible = True, modifiers = [],
      reactants = [''S''], products = [''R''],
      kinetic_law = Apply ''Mul'' [Symbol ''k'', Symbol ''S'']\<rparr>"

text \<open>
  The conversion \<open>S \<rightarrow> I\<close> and the degradation of \<open>I\<close>, both with the declared
  modifier \<open>R\<close> and a rate law that names it.
\<close>

definition mediated :: reaction where
  "mediated =
     \<lparr>reaction_id = ''mediated'', reversible = False, modifiers = [''R''],
      reactants = [''S''], products = [''I''],
      kinetic_law = Apply ''Mul'' [Symbol ''k'', Symbol ''S'', Symbol ''R'']\<rparr>"

definition removal :: reaction where
  "removal =
     \<lparr>reaction_id = ''removal'', reversible = False, modifiers = [''R''],
      reactants = [''I''], products = [],
      kinetic_law = Apply ''Mul'' [Symbol ''k'', Symbol ''I'', Symbol ''R'']\<rparr>"

text \<open>
  A pre-compiled model with the shape of the one in the tests of the repository: the
  infection \<open>S \<rightarrow> I\<close> controlled by \<open>I\<close>, with a rate law, and the recovery
  \<open>I \<rightarrow> R\<close>.
\<close>

definition sir_model :: model where
  "sir_model =
     \<lparr>variables =
        [(''S'', \<lparr>var_key = ''S'', var_name = Some ''S''\<rparr>),
         (''I'', \<lparr>var_key = ''I'', var_name = Some ''I''\<rparr>),
         (''R'', \<lparr>var_key = ''R'', var_name = Some ''R''\<rparr>)],
      transitions =
        [\<lparr>control = [''I''], consumed = [''S''], produced = [''I''],
          rate_law = Some (''I*S*k'', ''<apply><times/><ci>I</ci><ci>S</ci><ci>k</ci></apply>'')\<rparr>,
         \<lparr>control = [], consumed = [''I''], produced = [''R''], rate_law = None\<rparr>],
      param_values = [(''k'', 3 / 10)]\<rparr>"



section \<open>Facts about the bilayer importer\<close>

lemmas new_template_defs =
  new_NaturalConversion_def new_ControlledConversion_def
  new_GroupedControlledConversion_def new_NaturalProduction_def new_NaturalDegradation_def

lemmas fixture_defs =
  document_def infection_def self_loop_def waning_def susceptible_def infected_def immune_def

text \<open>
  Claim C5, as the code has it.  A box without controllers becomes a
  \<open>NaturalProduction\<close> when it has an output and no input, a \<open>NaturalDegradation\<close>
  when it has an input and no output, and a \<open>NaturalConversion\<close> when it has both.
  A box with an input and an output becomes a \<open>ControlledConversion\<close> with one
  controller and a \<open>GroupedControlledConversion\<close> with two or more.  The importer has
  no controlled production or degradation: a box with controllers that lacks its
  input or its output is handed to the conversion constructors and rejected.  A
  document with one box that has one input, one output and no controller produces
  exactly one \<open>NaturalConversion\<close>.
\<close>

theorem box_to_template_variants:
  "(inputs b = [] \<and> outputs b = [p] \<and> controllers b = []
      \<longrightarrow> box_to_template b = Inr (NaturalProduction p None))
   \<and> (inputs b = [s] \<and> outputs b = [] \<and> controllers b = []
      \<longrightarrow> box_to_template b = Inr (NaturalDegradation s None))
   \<and> (inputs b = [s] \<and> outputs b = [p] \<and> controllers b = []
      \<longrightarrow> box_to_template b = Inr (NaturalConversion s p None))
   \<and> (inputs b = [s] \<and> outputs b = [p] \<and> controllers b = [c]
      \<longrightarrow> box_to_template b = Inr (ControlledConversion c s p None))
   \<and> (inputs b = [s] \<and> outputs b = [p] \<and> 2 \<le> length (controllers b)
      \<longrightarrow> box_to_template b = Inr (GroupedControlledConversion (controllers b) s p None))
   \<and> (length (inputs b) \<le> 1 \<and> length (outputs b) \<le> 1
        \<and> (inputs b = [] \<or> outputs b = []) \<and> controllers b \<noteq> []
      \<longrightarrow> box_to_template b = Inl ValidationError)
   \<and> (1 \<le> i \<and> i \<le> int (length q) \<and> 1 \<le> j \<and> j \<le> int (length q)
      \<longrightarrow> template_model_from_bilayer
            \<lparr>Qin = q, Box = 1, Wn = [(1, i)], Wa = [(1, j)], Win = []\<rparr>
          = Inr [NaturalConversion (Concept (q ! nat (i - 1))) (Concept (q ! nat (j - 1))) None])"
  by (intro conjI impI)
     (auto simp: box_to_template_def new_template_defs Let_def template_model_from_bilayer_def
        add_consumption_def add_production_def list_index_def concepts_get_def
        split: list.splits)

theorem box_to_template_variants_witness:
  "box_to_template \<lparr>inputs = [], outputs = [infected], controllers = []\<rparr>
     = Inr (NaturalProduction infected None)
   \<and> box_to_template \<lparr>inputs = [infected], outputs = [], controllers = []\<rparr>
     = Inr (NaturalDegradation infected None)
   \<and> box_to_template \<lparr>inputs = [infected], outputs = [immune], controllers = []\<rparr>
     = Inr (NaturalConversion infected immune None)
   \<and> box_to_template \<lparr>inputs = [susceptible], outputs = [infected], controllers = [infected]\<rparr>
     = Inr (ControlledConversion infected susceptible infected None)
   \<and> box_to_template
        \<lparr>inputs = [susceptible], outputs = [infected], controllers = [infected, immune]\<rparr>
     = Inr (GroupedControlledConversion [infected, immune] susceptible infected None)
   \<and> box_to_template \<lparr>inputs = [], outputs = [infected], controllers = [immune]\<rparr>
     = Inl ValidationError
   \<and> template_model_from_bilayer
        \<lparr>Qin = [''S'', ''I''], Box = 1, Wn = [(1, 1)], Wa = [(1, 2)], Win = []\<rparr>
     = Inr [NaturalConversion (Concept ''S'') (Concept ''I'') None]"
  using
    box_to_template_variants
      [of "\<lparr>inputs = [], outputs = [infected], controllers = []\<rparr>" infected]
    box_to_template_variants
      [of "\<lparr>inputs = [infected], outputs = [], controllers = []\<rparr>" _ infected]
    box_to_template_variants
      [of "\<lparr>inputs = [infected], outputs = [immune], controllers = []\<rparr>" immune infected]
    box_to_template_variants
      [of "\<lparr>inputs = [susceptible], outputs = [infected], controllers = [infected]\<rparr>"
          infected susceptible infected]
    box_to_template_variants
      [of "\<lparr>inputs = [susceptible], outputs = [infected], controllers = [infected, immune]\<rparr>"
          infected susceptible]
    box_to_template_variants
      [of "\<lparr>inputs = [], outputs = [infected], controllers = [immune]\<rparr>"]
    box_to_template_variants [of _ _ _ _ 1 "[''S'', ''I'']" 2]
  by simp

text \<open>
  Claim C5 as it is written gives the controlled variant of the same shape for one
  controller.  A box with one output, one controller and no input is not turned
  into a \<open>ControlledProduction\<close>: the importer calls \<open>ControlledConversion\<close> without a
  subject.
\<close>

theorem box_to_template_controlled_production_counterexample:
  "box_to_template \<lparr>inputs = [], outputs = [infected], controllers = [immune]\<rparr>
     \<noteq> Inr (ControlledProduction immune infected None)
   \<and> box_to_template \<lparr>inputs = [], outputs = [infected], controllers = [immune]\<rparr>
     = Inl ValidationError"
  by (simp add: box_to_template_def new_template_defs)

section \<open>Facts about the reaction-network importer\<close>


lemma implicit_modifiers_empty:
  "(V \<inter> A) - (set R \<union> set M) = {} \<Longrightarrow> implicit_modifiers V A R M = []"
  unfolding implicit_modifiers_def by (simp only: sorted_list_of_set_empty)




lemma substitute_compartments_plain_absent:
  "substitute_compartments plain_sympy [(''c'', 1)]
     (Apply ''Mul'' [Symbol ''k'', Symbol ''S'', Symbol ''I''])
   = Apply ''Mul'' [Symbol ''k'', Symbol ''S'', Symbol ''I'']"
  by (simp add: substitute_compartments_def dict_of_def substitute_compartment_def
        plain_sympy_def)





lemma concepts_document:
  "concepts (document rs) ''S'' = Some susceptible"
  "concepts (document rs) ''I'' = Some infected"
  "concepts (document rs) ''R'' = Some immune"
  by (simp_all add: concepts_def document_def)

lemma all_species_document: "all_species (document rs) = {''S'', ''I'', ''R''}"
  by (simp add: all_species_def document_def)

lemma lookup_document:
  "lookup_concepts_filtered (document rs) {} [] = Inr []"
  "lookup_concepts_filtered (document rs) {} [''S''] = Inr [susceptible]"
  "lookup_concepts_filtered (document rs) {} [''I''] = Inr [infected]"
  "lookup_concepts_filtered (document rs) {} [''R''] = Inr [immune]"
  by (simp_all add: lookup_concepts_filtered_def concepts_document startswith_def)






lemma implicit_modifiers_infection_declared:
  "implicit_modifiers
       (variables_from_sympy_expr (Apply ''Mul'' [Symbol ''k'', Symbol ''S'', Symbol ''I'']))
       {''S'', ''I'', ''R''} [''S''] [''R''] = [''I'']"
proof -
  have "(variables_from_sympy_expr (Apply ''Mul'' [Symbol ''k'', Symbol ''S'', Symbol ''I''])
          \<inter> {''S'', ''I'', ''R''}) - (set [''S''] \<union> set [''R'']) = {''I''}"
    by auto
  then show ?thesis unfolding implicit_modifiers_def by simp
qed

lemma lookup_document_two:
  "lookup_concepts_filtered (document rs) {} [''R'', ''I''] = Inr [immune, infected]"
  by (simp add: lookup_concepts_filtered_def concepts_document startswith_def)

lemma extract_reaction_infection_declared:
  "extract_reaction plain_sympy (document rs) {} (infection [''R''])
     = Inr [GroupedControlledConversion [immune, infected] susceptible infected
              (Some (Apply ''Mul'' [Symbol ''k'', Symbol ''S'', Symbol ''I'']))]"
proof -
  have sc: "substitute_compartments plain_sympy (compartments (document rs))
              (kinetic_law (infection [''R'']))
            = Apply ''Mul'' [Symbol ''k'', Symbol ''S'', Symbol ''I'']"
    by (simp add: document_def infection_def substitute_compartments_plain_absent)
  have imp: "implicit_modifiers
       (variables_from_sympy_expr (Apply ''Mul'' [Symbol ''k'', Symbol ''S'', Symbol ''I'']))
       (all_species (document rs)) (reactants (infection [''R''])) (modifiers (infection [''R'']))
       = [''I'']"
    unfolding all_species_document using implicit_modifiers_infection_declared
    by (simp add: infection_def)
  have ne: "\<not> concept_eq susceptible infected"
    by (simp add: concept_eq_def susceptible_def infected_def)
  have md: "modifiers (infection [''R'']) @ [''I''] = [''R'', ''I'']"
    by (simp add: infection_def)
  show ?thesis
    unfolding extract_reaction_def Let_def sc imp md
    by (simp add: infection_def lookup_document lookup_document_two select_template_def ne)
qed

lemma fixture_names: "name susceptible = ''S''" "name infected = ''I''" "name immune = ''R''"
  by (simp_all add: fixture_defs)

lemma find_constant_concepts_grouped:
  "templates tm = [GroupedControlledConversion [immune, infected] susceptible infected r]
   \<Longrightarrow> find_constant_concepts tm = {''R''}"
  by (auto simp add: find_constant_concepts_def add_role_def Let_def fixture_names)

lemma find_constant_concepts_controlled:
  "templates tm = [ControlledConversion immune susceptible infected r]
   \<Longrightarrow> find_constant_concepts tm = {''R''}"
  by (auto simp add: find_constant_concepts_def add_role_def Let_def fixture_names)

lemma plain_subs_absent:
  "plain_subs (Apply ''Mul'' [Symbol ''k'', Symbol ''S'', Symbol ''I'']) ''R'' v
     = Apply ''Mul'' [Symbol ''k'', Symbol ''S'', Symbol ''I'']"
  by simp

lemma replace_constant_concepts_grouped:
  "templates tm = [GroupedControlledConversion [immune, infected] susceptible infected (Some e)]
   \<Longrightarrow> \<exists>tm'. replace_constant_concepts ops [''R''] tm = Inr tm'
          \<and> templates tm' = [ControlledConversion immune susceptible infected
                (Some (subs ops e ''R'' (case initials tm ''R'' of Some v \<Rightarrow> v | None \<Rightarrow> 1)))]"
  by (simp add: replace_constant_concepts_def replace_constant_concept_def Let_def
        subs_rate_law_def fixture_names)

lemma replace_constant_concepts_controlled:
  "templates tm = [ControlledConversion immune susceptible infected (Some e)]
   \<Longrightarrow> \<exists>tm'. replace_constant_concepts ops [''R''] tm = Inr tm'
          \<and> templates tm' = [NaturalConversion susceptible infected
                (Some (subs ops e ''R'' (case initials tm ''R'' of Some v \<Rightarrow> v | None \<Rightarrow> 1)))]"
  by (simp add: replace_constant_concepts_def replace_constant_concept_def Let_def
        subs_rate_law_def fixture_names)

lemma reactions_document: "reactions (document rs) = rs"
  by (simp add: document_def)

lemma assemble_model_infection_declared:
  "\<exists>tm0. assemble_model plain_sympy (document [infection [''R'']]) {} = Inr tm0
      \<and> templates tm0 = [GroupedControlledConversion [immune, infected] susceptible infected
              (Some (Apply ''Mul'' [Symbol ''k'', Symbol ''S'', Symbol ''I'']))]"
  by (simp add: assemble_model_def extract_reaction_infection_declared reactions_document)

text \<open>
  A grouped conversion with two controllers.  The infection \<open>S \<rightarrow> I\<close> with the rate
  law \<open>k*S*I\<close> declares the modifier \<open>R\<close>; its template is a
  \<open>GroupedControlledConversion\<close> with the controllers \<open>R\<close> and \<open>I\<close>.  The only constant
  concept of the model is \<open>R\<close>.  Replacing it leaves a \<open>ControlledConversion\<close> whose
  controller is \<open>R\<close> itself, the first of the list, and not the remaining controller
  \<open>I\<close>.
\<close>

lemma replace_constant_concepts_keeps_eliminated:
  "\<exists>tm0 tm. assemble_model plain_sympy (document [infection [''R'']]) {} = Inr tm0
      \<and> templates tm0 = [GroupedControlledConversion [immune, infected] susceptible infected
              (Some (Apply ''Mul'' [Symbol ''k'', Symbol ''S'', Symbol ''I'']))]
      \<and> visits tm0 [''R'']
      \<and> extract_model plain_sympy [''R''] (document [infection [''R'']]) {} = Inr tm
      \<and> templates tm = [ControlledConversion immune susceptible infected
              (Some (Apply ''Mul'' [Symbol ''k'', Symbol ''S'', Symbol ''I'']))]"
proof -
  obtain tm0 where tm0: "assemble_model plain_sympy (document [infection [''R'']]) {} = Inr tm0"
     "templates tm0 = [GroupedControlledConversion [immune, infected] susceptible infected
              (Some (Apply ''Mul'' [Symbol ''k'', Symbol ''S'', Symbol ''I'']))]"
    using assemble_model_infection_declared by blast
  have v: "visits tm0 [''R'']"
    using find_constant_concepts_grouped[OF tm0(2)] by (simp add: visits_def)
  obtain tm where tm: "replace_constant_concepts plain_sympy [''R''] tm0 = Inr tm"
     "templates tm = [ControlledConversion immune susceptible infected
                (Some (subs plain_sympy (Apply ''Mul'' [Symbol ''k'', Symbol ''S'', Symbol ''I''])
                    ''R'' (case initials tm0 ''R'' of Some v \<Rightarrow> v | None \<Rightarrow> 1)))]"
    using replace_constant_concepts_grouped[OF tm0(2)] by blast
  have "extract_model plain_sympy [''R''] (document [infection [''R'']]) {} = Inr tm"
    using tm0(1) tm(1) by (simp add: extract_model_def)
  moreover have "templates tm = [ControlledConversion immune susceptible infected
              (Some (Apply ''Mul'' [Symbol ''k'', Symbol ''S'', Symbol ''I'']))]"
    using tm(2) by (simp add: plain_sympy_def)
  ultimately show ?thesis using tm0 v by blast
qed

text \<open>
  Claim C4, at an input where the code departs from it.  On the model that
  \<open>extract_model\<close> returns for the document above, the concept \<open>R\<close> is still the
  only constant concept, and a second pass changes the model again: the
  \<open>ControlledConversion\<close> becomes a \<open>NaturalConversion\<close>.
\<close>

theorem replace_constant_concepts_second_pass:
  "\<exists>tm1 tm2. extract_model plain_sympy [''R''] (document [infection [''R'']]) {} = Inr tm1
      \<and> visits tm1 [''R'']
      \<and> replace_constant_concepts plain_sympy [''R''] tm1 = Inr tm2
      \<and> templates tm1 = [ControlledConversion immune susceptible infected
              (Some (Apply ''Mul'' [Symbol ''k'', Symbol ''S'', Symbol ''I'']))]
      \<and> templates tm2 = [NaturalConversion susceptible infected
              (Some (Apply ''Mul'' [Symbol ''k'', Symbol ''S'', Symbol ''I'']))]
      \<and> tm2 \<noteq> tm1"
proof -
  obtain tm0 where tm0: "assemble_model plain_sympy (document [infection [''R'']]) {} = Inr tm0"
     "templates tm0 = [GroupedControlledConversion [immune, infected] susceptible infected
              (Some (Apply ''Mul'' [Symbol ''k'', Symbol ''S'', Symbol ''I'']))]"
    using assemble_model_infection_declared by blast
  obtain tm1 where tm1: "replace_constant_concepts plain_sympy [''R''] tm0 = Inr tm1"
     "templates tm1 = [ControlledConversion immune susceptible infected
                (Some (subs plain_sympy (Apply ''Mul'' [Symbol ''k'', Symbol ''S'', Symbol ''I''])
                    ''R'' (case initials tm0 ''R'' of Some v \<Rightarrow> v | None \<Rightarrow> 1)))]"
    using replace_constant_concepts_grouped[OF tm0(2)] by blast
  have t1: "templates tm1 = [ControlledConversion immune susceptible infected
              (Some (Apply ''Mul'' [Symbol ''k'', Symbol ''S'', Symbol ''I'']))]"
    using tm1(2) by (simp add: plain_sympy_def)
  have e: "extract_model plain_sympy [''R''] (document [infection [''R'']]) {} = Inr tm1"
    using tm0(1) tm1(1) by (simp add: extract_model_def)
  have v: "visits tm1 [''R'']"
    using find_constant_concepts_controlled[OF t1] by (simp add: visits_def)
  obtain tm2 where tm2: "replace_constant_concepts plain_sympy [''R''] tm1 = Inr tm2"
     "templates tm2 = [NaturalConversion susceptible infected
                (Some (subs plain_sympy (Apply ''Mul'' [Symbol ''k'', Symbol ''S'', Symbol ''I''])
                    ''R'' (case initials tm1 ''R'' of Some v \<Rightarrow> v | None \<Rightarrow> 1)))]"
    using replace_constant_concepts_controlled[OF t1] by blast
  have t2: "templates tm2 = [NaturalConversion susceptible infected
              (Some (Apply ''Mul'' [Symbol ''k'', Symbol ''S'', Symbol ''I'']))]"
    using tm2(2) by (simp add: plain_sympy_def)
  have "tm2 \<noteq> tm1" using t1 t2 by auto
  then show ?thesis using e v tm2(1) t1 t2 by blast
qed


text \<open>
  A pass keeps the number of templates and never adds a controller to one.
\<close>

lemma replace_controller_by_constant_count:
  "replace_controller_by_constant ops t n v = Inr (Some t')
   \<Longrightarrow> controller_count t' \<le> controller_count t"
  by (cases t) (auto simp: subs_rate_law_def Suc_le_eq split: if_splits sum.splits option.splits)

lemma map_err_list_all2:
  "map_err f xs = Inr ys \<Longrightarrow> list_all2 (\<lambda>x y. f x = Inr y) xs ys"
  by (induction xs arbitrary: ys) (auto split: sum.splits)

lemma replace_constant_concept_count:
  assumes "replace_constant_concept ops c tm = Inr tm'"
  shows "list_all2 (\<lambda>t t'. controller_count t' \<le> controller_count t)
           (templates tm) (templates tm')"
proof -
  let ?f = "\<lambda>t. case replace_controller_by_constant ops t c
                       (case initials tm c of Some v \<Rightarrow> v | None \<Rightarrow> 1) of
                  Inl e \<Rightarrow> Inl e
                | Inr None \<Rightarrow> Inr t
                | Inr (Some new_template) \<Rightarrow> Inr new_template"
  obtain ts where ts: "map_err ?f (templates tm) = Inr ts" "templates tm' = ts"
    using assms by (auto simp: replace_constant_concept_def Let_def split: sum.splits)
  have "list_all2 (\<lambda>t t'. ?f t = Inr t') (templates tm) ts"
    using ts(1) by (rule map_err_list_all2)
  then have "list_all2 (\<lambda>t t'. controller_count t' \<le> controller_count t) (templates tm) ts"
    by (rule list_all2_mono)
       (auto split: sum.splits option.splits dest: replace_controller_by_constant_count)
  then show ?thesis using ts(2) by simp
qed

lemma replace_constant_concepts_controller_count:
  "replace_constant_concepts ops visit tm = Inr tm'
   \<Longrightarrow> list_all2 (\<lambda>t t'. controller_count t' \<le> controller_count t)
         (templates tm) (templates tm')"
proof (induction visit arbitrary: tm)
  case Nil
  then show ?case by (simp add: replace_constant_concepts_def list_all2_refl)
next
  case (Cons c cs)
  then obtain tm1 where s: "replace_constant_concept ops c tm = Inr tm1"
      "replace_constant_concepts ops cs tm1 = Inr tm'"
    by (auto simp: replace_constant_concepts_def split: sum.splits)
  have a: "list_all2 (\<lambda>t t'. controller_count t' \<le> controller_count t)
             (templates tm) (templates tm1)"
    using s(1) by (rule replace_constant_concept_count)
  have b: "list_all2 (\<lambda>t t'. controller_count t' \<le> controller_count t)
             (templates tm1) (templates tm')"
    using Cons.IH[OF s(2)] .
  show ?case
    using list_all2_trans[where ?P1.0="\<lambda>t t'. controller_count t' \<le> controller_count t"
            and ?P2.0="\<lambda>t t'. controller_count t' \<le> controller_count t"
            and ?P3.0="\<lambda>t t'. controller_count t' \<le> controller_count t", OF _ a b]
    by simp
qed

lemma select_template_length: "length (select_template mods reacts prods e) \<le> Suc 0"
  by (simp add: select_template_def)

lemma extract_reaction_length:
  "extract_reaction ops m rep r = Inr ts \<Longrightarrow> length ts \<le> Suc 0"
  by (auto simp: extract_reaction_def Let_def select_template_length split: sum.splits)

lemma map_err_concat_length:
  "map_err f xs = Inr tss \<Longrightarrow> (\<And>x ts. f x = Inr ts \<Longrightarrow> length ts \<le> Suc 0)
   \<Longrightarrow> length (concat tss) \<le> length xs"
proof (induction xs arbitrary: tss)
  case Nil
  then show ?case by simp
next
  case (Cons x xs)
  then obtain ts rest where p: "f x = Inr ts" "map_err f xs = Inr rest" "tss = ts # rest"
    by (auto split: sum.splits)
  have "length ts \<le> Suc 0" using Cons.prems(2) p(1) by blast
  moreover have "length (concat rest) \<le> length xs"
    using Cons.IH[OF p(2)] Cons.prems(2) by blast
  ultimately show ?case using p(3) by simp
qed

lemma assemble_model_length:
  "assemble_model ops m rep = Inr tm \<Longrightarrow> length (templates tm) \<le> length (reactions m)"
proof -
  assume a: "assemble_model ops m rep = Inr tm"
  then obtain tss where t: "map_err (extract_reaction ops m rep) (reactions m) = Inr tss"
      "templates tm = concat tss"
    by (auto simp: assemble_model_def split: sum.splits)
  show ?thesis
    using map_err_concat_length[OF t(1)] extract_reaction_length t(2) by simp
qed

lemma map_err_nth:
  "map_err f xs = Inr ys \<Longrightarrow> length ys = length xs \<and> (\<forall>i < length xs. f (xs ! i) = Inr (ys ! i))"
  using map_err_list_all2[of f xs ys]
  by (auto simp: list_all2_conv_all_nth)

text \<open>
  Claim C3, as the code has it.  One round of the elimination makes the constant
  concept a parameter with its initial value (1.0 without one) and keeps the number
  of templates.  It rewrites a \<open>ControlledConversion\<close> whose controller has the name of
  the constant into a \<open>NaturalConversion\<close>, and a \<open>GroupedControlledConversion\<close> with
  more than two controllers into one without the controllers of that name, each with
  the value substituted for the symbol in the rate law.  A template of any other
  variant is left as it is.  Grouped conversions with at most two controllers are
  not covered here.
\<close>

theorem replace_constant_concept_rewrites:
  "replace_constant_concept ops n tm = Inr tm'
   \<longrightarrow> parameters tm' = (parameters tm)(n \<mapsto> (case initials tm n of Some v \<Rightarrow> v | None \<Rightarrow> 1))
       \<and> initials tm' = initials tm
       \<and> length (templates tm') = length (templates tm)
       \<and> (\<forall>i < length (templates tm).
            (\<forall>c s p r. templates tm ! i = ControlledConversion c s p r \<and> name c = n
               \<longrightarrow> (\<exists>e. r = Some e
                      \<and> templates tm' ! i
                          = NaturalConversion s p
                              (Some (subs ops e n
                                 (case initials tm n of Some v \<Rightarrow> v | None \<Rightarrow> 1)))))
          \<and> (\<forall>c s p r. templates tm ! i = ControlledConversion c s p r \<and> name c \<noteq> n
               \<longrightarrow> templates tm' ! i = templates tm ! i)
          \<and> (\<forall>cs s p r. templates tm ! i = GroupedControlledConversion cs s p r
                 \<and> 2 < length cs
               \<longrightarrow> (\<exists>e. r = Some e
                      \<and> templates tm' ! i
                          = GroupedControlledConversion (filter (\<lambda>c. name c \<noteq> n) cs) s p
                              (Some (subs ops e n
                                 (case initials tm n of Some v \<Rightarrow> v | None \<Rightarrow> 1)))))
          \<and> ((\<forall>c s p r. templates tm ! i \<noteq> ControlledConversion c s p r)
               \<and> (\<forall>cs s p r. templates tm ! i \<noteq> GroupedControlledConversion cs s p r)
               \<longrightarrow> templates tm' ! i = templates tm ! i))"
proof
  assume a: "replace_constant_concept ops n tm = Inr tm'"
  let ?v = "case initials tm n of Some v \<Rightarrow> v | None \<Rightarrow> 1"
  let ?f = "\<lambda>t. case replace_controller_by_constant ops t n ?v of
                  Inl e \<Rightarrow> Inl e
                | Inr None \<Rightarrow> Inr t
                | Inr (Some new_template) \<Rightarrow> Inr new_template"
  obtain ts where ts: "map_err ?f (templates tm) = Inr ts"
      "tm' = tm\<lparr>templates := ts, parameters := (parameters tm)(n \<mapsto> ?v)\<rparr>"
    using a by (auto simp: replace_constant_concept_def Let_def split: sum.splits)
  have len: "length ts = length (templates tm)"
    and each: "\<And>i. i < length (templates tm) \<Longrightarrow> ?f (templates tm ! i) = Inr (ts ! i)"
    using map_err_nth[OF ts(1)] by auto
  have t': "templates tm' = ts" "parameters tm' = (parameters tm)(n \<mapsto> ?v)"
      "initials tm' = initials tm"
    using ts(2) by simp_all
  have step: "(\<forall>c s p r. templates tm ! i = ControlledConversion c s p r \<and> name c = n
               \<longrightarrow> (\<exists>e. r = Some e
                      \<and> ts ! i = NaturalConversion s p (Some (subs ops e n ?v))))
          \<and> (\<forall>c s p r. templates tm ! i = ControlledConversion c s p r \<and> name c \<noteq> n
               \<longrightarrow> ts ! i = templates tm ! i)
          \<and> (\<forall>cs s p r. templates tm ! i = GroupedControlledConversion cs s p r
                 \<and> 2 < length cs
               \<longrightarrow> (\<exists>e. r = Some e
                      \<and> ts ! i
                          = GroupedControlledConversion (filter (\<lambda>c. name c \<noteq> n) cs) s p
                              (Some (subs ops e n ?v))))
          \<and> ((\<forall>c s p r. templates tm ! i \<noteq> ControlledConversion c s p r)
               \<and> (\<forall>cs s p r. templates tm ! i \<noteq> GroupedControlledConversion cs s p r)
               \<longrightarrow> ts ! i = templates tm ! i)"
    if i: "i < length (templates tm)" for i
    using each[OF i]
    by (cases "templates tm ! i")
       (auto simp: subs_rate_law_def split: if_splits sum.splits option.splits)
  show "parameters tm' = (parameters tm)(n \<mapsto> ?v)
       \<and> initials tm' = initials tm
       \<and> length (templates tm') = length (templates tm)
       \<and> (\<forall>i < length (templates tm).
            (\<forall>c s p r. templates tm ! i = ControlledConversion c s p r \<and> name c = n
               \<longrightarrow> (\<exists>e. r = Some e
                      \<and> templates tm' ! i = NaturalConversion s p (Some (subs ops e n ?v))))
          \<and> (\<forall>c s p r. templates tm ! i = ControlledConversion c s p r \<and> name c \<noteq> n
               \<longrightarrow> templates tm' ! i = templates tm ! i)
          \<and> (\<forall>cs s p r. templates tm ! i = GroupedControlledConversion cs s p r
                 \<and> 2 < length cs
               \<longrightarrow> (\<exists>e. r = Some e
                      \<and> templates tm' ! i
                          = GroupedControlledConversion (filter (\<lambda>c. name c \<noteq> n) cs) s p
                              (Some (subs ops e n ?v))))
          \<and> ((\<forall>c s p r. templates tm ! i \<noteq> ControlledConversion c s p r)
               \<and> (\<forall>cs s p r. templates tm ! i \<noteq> GroupedControlledConversion cs s p r)
               \<longrightarrow> templates tm' ! i = templates tm ! i))"
    unfolding t' using len step by blast
qed


lemma implicit_modifiers_none:
  "implicit_modifiers
       (variables_from_sympy_expr (Apply ''Mul'' [Symbol ''k'', Symbol ''S'', Symbol ''R'']))
       {''S'', ''I'', ''R''} [''S''] [''R''] = []"
  "implicit_modifiers
       (variables_from_sympy_expr (Apply ''Mul'' [Symbol ''k'', Symbol ''I'', Symbol ''R'']))
       {''S'', ''I'', ''R''} [''I''] [''R''] = []"
  by (rule implicit_modifiers_empty; auto)+

lemma substitute_compartments_plain_other:
  "substitute_compartments plain_sympy [(''c'', 1)]
     (Apply ''Mul'' [Symbol ''k'', Symbol ''S'', Symbol ''R''])
   = Apply ''Mul'' [Symbol ''k'', Symbol ''S'', Symbol ''R'']"
  "substitute_compartments plain_sympy [(''c'', 1)]
     (Apply ''Mul'' [Symbol ''k'', Symbol ''I'', Symbol ''R''])
   = Apply ''Mul'' [Symbol ''k'', Symbol ''I'', Symbol ''R'']"
  by (simp_all add: substitute_compartments_def dict_of_def substitute_compartment_def
        plain_sympy_def)

lemma extract_reaction_mediated:
  "extract_reaction plain_sympy (document rs) {} mediated
     = Inr [ControlledConversion immune susceptible infected
              (Some (Apply ''Mul'' [Symbol ''k'', Symbol ''S'', Symbol ''R'']))]"
proof -
  have sc: "substitute_compartments plain_sympy (compartments (document rs))
              (kinetic_law mediated)
            = Apply ''Mul'' [Symbol ''k'', Symbol ''S'', Symbol ''R'']"
    by (simp add: document_def mediated_def substitute_compartments_plain_other)
  have imp: "implicit_modifiers
       (variables_from_sympy_expr (Apply ''Mul'' [Symbol ''k'', Symbol ''S'', Symbol ''R'']))
       (all_species (document rs)) (reactants mediated) (modifiers mediated) = []"
    unfolding all_species_document using implicit_modifiers_none(1)
    by (simp add: mediated_def)
  have ne: "\<not> concept_eq susceptible infected"
    by (simp add: concept_eq_def susceptible_def infected_def)
  show ?thesis
    unfolding extract_reaction_def Let_def sc imp
    by (simp add: mediated_def lookup_document select_template_def ne)
qed

lemma extract_reaction_removal:
  "extract_reaction plain_sympy (document rs) {} removal
     = Inr [ControlledDegradation immune infected
              (Some (Apply ''Mul'' [Symbol ''k'', Symbol ''I'', Symbol ''R'']))]"
proof -
  have sc: "substitute_compartments plain_sympy (compartments (document rs))
              (kinetic_law removal)
            = Apply ''Mul'' [Symbol ''k'', Symbol ''I'', Symbol ''R'']"
    by (simp add: document_def removal_def substitute_compartments_plain_other)
  have imp: "implicit_modifiers
       (variables_from_sympy_expr (Apply ''Mul'' [Symbol ''k'', Symbol ''I'', Symbol ''R'']))
       (all_species (document rs)) (reactants removal) (modifiers removal) = []"
    unfolding all_species_document using implicit_modifiers_none(2)
    by (simp add: removal_def)
  show ?thesis
    unfolding extract_reaction_def Let_def sc imp
    by (simp add: removal_def lookup_document select_template_def)
qed

lemma initials_document:
  "assemble_model ops (document rs) rep = Inr tm \<Longrightarrow> initials tm ''R'' = Some 0"
  by (auto simp: assemble_model_def document_def split: sum.splits)

lemma find_constant_concepts_removal:
  "templates tm = [ControlledDegradation immune infected r]
   \<Longrightarrow> find_constant_concepts tm = {''R''}"
  by (auto simp add: find_constant_concepts_def add_role_def Let_def fixture_names)

lemma find_constant_concepts_mediated_removal:
  "templates tm = [ControlledConversion immune susceptible infected r,
                   ControlledDegradation immune infected r']
   \<Longrightarrow> find_constant_concepts tm = {''R''}"
  by (auto simp add: find_constant_concepts_def add_role_def Let_def fixture_names)

theorem replace_constant_concept_rewrites_witness:
  "\<exists>tm0 tm. assemble_model plain_sympy (document [mediated, removal]) {} = Inr tm0
      \<and> templates tm0 =
           [ControlledConversion immune susceptible infected
              (Some (Apply ''Mul'' [Symbol ''k'', Symbol ''S'', Symbol ''R''])),
            ControlledDegradation immune infected
              (Some (Apply ''Mul'' [Symbol ''k'', Symbol ''I'', Symbol ''R'']))]
      \<and> visits tm0 [''R'']
      \<and> replace_constant_concept plain_sympy ''R'' tm0 = Inr tm
      \<and> parameters tm ''R'' = Some 0
      \<and> templates tm ! 0 =
           NaturalConversion susceptible infected
              (Some (Apply ''Mul'' [Symbol ''k'', Symbol ''S'', Number 0]))
      \<and> templates tm ! 1 =
           ControlledDegradation immune infected
              (Some (Apply ''Mul'' [Symbol ''k'', Symbol ''I'', Symbol ''R'']))"
proof -
  obtain tm0 where tm0: "assemble_model plain_sympy (document [mediated, removal]) {} = Inr tm0"
      "templates tm0 =
           [ControlledConversion immune susceptible infected
              (Some (Apply ''Mul'' [Symbol ''k'', Symbol ''S'', Symbol ''R''])),
            ControlledDegradation immune infected
              (Some (Apply ''Mul'' [Symbol ''k'', Symbol ''I'', Symbol ''R'']))]"
    by (simp add: assemble_model_def extract_reaction_mediated extract_reaction_removal
          reactions_document)
  have i0: "initials tm0 ''R'' = Some 0" using tm0(1) by (rule initials_document)
  have v: "visits tm0 [''R'']"
    using find_constant_concepts_mediated_removal[OF tm0(2)] by (simp add: visits_def)
  obtain tm where tm: "replace_constant_concept plain_sympy ''R'' tm0 = Inr tm"
    using tm0(2)
    by (simp add: replace_constant_concept_def Let_def subs_rate_law_def fixture_names)
  note r = replace_constant_concept_rewrites
             [where ops = plain_sympy and n = "''R''" and tm = tm0 and tm' = tm,
              THEN mp, OF tm]
  note q = r[THEN conjunct2, THEN conjunct2, THEN conjunct2, rule_format]
  have p: "parameters tm ''R'' = Some 0" using r[THEN conjunct1] i0 by simp
  have a: "templates tm ! 0 =
           NaturalConversion susceptible infected
              (Some (Apply ''Mul'' [Symbol ''k'', Symbol ''S'', Number 0]))"
    using q[of 0] tm0(2) i0 by (simp add: fixture_names plain_sympy_def)
  have b: "templates tm ! 1 =
           ControlledDegradation immune infected
              (Some (Apply ''Mul'' [Symbol ''k'', Symbol ''I'', Symbol ''R'']))"
    using q[of 1] tm0(2) by simp
  show ?thesis using tm0 v tm p a b by blast
qed

text \<open>
  Claim C3 as it is written rewrites every template whose sole controller is
  eliminated.  In the model of the degradation of \<open>I\<close> with the modifier \<open>R\<close> the
  concept \<open>R\<close> is constant, and the pass leaves the \<open>ControlledDegradation\<close> controlled
  by \<open>R\<close> as it is, with \<open>R\<close> in its rate law.
\<close>

theorem replace_constant_concepts_degradation_counterexample:
  "(case assemble_model plain_sympy (document [removal]) {} of
      Inr tm0 \<Rightarrow> find_constant_concepts tm0 | Inl e \<Rightarrow> {}) = {''R''}
   \<and> (case extract_model plain_sympy [''R''] (document [removal]) {} of
        Inr tm \<Rightarrow> templates tm | Inl e \<Rightarrow> [])
     = [ControlledDegradation immune infected
          (Some (Apply ''Mul'' [Symbol ''k'', Symbol ''I'', Symbol ''R'']))]"
proof -
  obtain tm0 where tm0: "assemble_model plain_sympy (document [removal]) {} = Inr tm0"
      "templates tm0 =
           [ControlledDegradation immune infected
              (Some (Apply ''Mul'' [Symbol ''k'', Symbol ''I'', Symbol ''R'']))]"
    by (simp add: assemble_model_def extract_reaction_removal reactions_document)
  have c: "find_constant_concepts tm0 = {''R''}"
    using tm0(2) by (rule find_constant_concepts_removal)
  obtain tm where tm: "replace_constant_concepts plain_sympy [''R''] tm0 = Inr tm"
      "templates tm = templates tm0"
    using tm0(2)
    by (simp add: replace_constant_concepts_def replace_constant_concept_def Let_def)
  have "extract_model plain_sympy [''R''] (document [removal]) {} = Inr tm"
    using tm0(1) tm(1) by (simp add: extract_model_def)
  then show ?thesis using tm0 c tm(2) by simp
qed

text \<open>
  Claim C6 against the code.  The template of a reaction does not depend on its
  attribute \<open>reversible\<close>, and a model never has more templates than the document
  has reactions: a reversible reaction gets one template, in its forward direction,
  and none for the way back.
\<close>

theorem extract_model_one_direction:
  "extract_reaction ops m rep (r\<lparr>reversible := b\<rparr>) = extract_reaction ops m rep r
   \<and> (\<forall>tm. extract_model ops visit m rep = Inr tm
         \<longrightarrow> length (templates tm) \<le> length (reactions m))"
proof -
  have a: "extract_reaction ops m rep (r\<lparr>reversible := b\<rparr>) = extract_reaction ops m rep r"
    by (simp add: extract_reaction_def Let_def cong: sum.case_cong)
  have b: "length (templates tm) \<le> length (reactions m)"
    if h: "extract_model ops visit m rep = Inr tm" for tm
  proof -
    obtain tm0 where t: "assemble_model ops m rep = Inr tm0"
        "replace_constant_concepts ops visit tm0 = Inr tm"
      using h by (auto simp: extract_model_def split: sum.splits)
    have "length (templates tm) = length (templates tm0)"
      using replace_constant_concepts_controller_count[OF t(2)]
      by (simp add: list_all2_lengthD)
    then show ?thesis using assemble_model_length[OF t(1)] by simp
  qed
  show ?thesis using a b by blast
qed

lemma implicit_modifiers_waning:
  "implicit_modifiers
       (variables_from_sympy_expr (Apply ''Mul'' [Symbol ''k'', Symbol ''S'']))
       {''S'', ''I'', ''R''} [''S''] [] = []"
proof -
  have "(variables_from_sympy_expr (Apply ''Mul'' [Symbol ''k'', Symbol ''S''])
          \<inter> {''S'', ''I'', ''R''}) - (set [''S''] \<union> set []) = {}"
    by auto
  then show ?thesis by (rule implicit_modifiers_empty)
qed

lemma extract_reaction_waning:
  "extract_reaction plain_sympy (document rs) {} waning
     = Inr [NaturalConversion susceptible immune
              (Some (Apply ''Mul'' [Symbol ''k'', Symbol ''S'']))]"
proof -
  have sc: "substitute_compartments plain_sympy (compartments (document rs))
              (kinetic_law waning)
            = Apply ''Mul'' [Symbol ''k'', Symbol ''S'']"
    by (simp add: document_def waning_def substitute_compartments_def dict_of_def
          substitute_compartment_def plain_sympy_def)
  have imp: "implicit_modifiers
       (variables_from_sympy_expr (Apply ''Mul'' [Symbol ''k'', Symbol ''S'']))
       (all_species (document rs)) (reactants waning) (modifiers waning) = []"
    unfolding all_species_document using implicit_modifiers_waning
    by (simp add: waning_def)
  have ne: "\<not> concept_eq susceptible immune"
    by (simp add: concept_eq_def susceptible_def immune_def)
  show ?thesis
    unfolding extract_reaction_def Let_def sc imp
    by (simp add: waning_def lookup_document select_template_def ne)
qed

theorem extract_model_one_direction_witness:
  "reversible waning
   \<and> (\<exists>tm. extract_model plain_sympy [] (document [waning]) {} = Inr tm
         \<and> templates tm = [NaturalConversion susceptible immune
                             (Some (Apply ''Mul'' [Symbol ''k'', Symbol ''S'']))]
         \<and> length (templates tm) \<le> length (reactions (document [waning])))"
proof -
  obtain tm0 where t: "assemble_model plain_sympy (document [waning]) {} = Inr tm0"
      "templates tm0 = [NaturalConversion susceptible immune
                             (Some (Apply ''Mul'' [Symbol ''k'', Symbol ''S'']))]"
    by (simp add: assemble_model_def extract_reaction_waning reactions_document)
  have e: "extract_model plain_sympy [] (document [waning]) {} = Inr tm0"
    using t(1) by (simp add: extract_model_def replace_constant_concepts_def)
  have "length (templates tm0) \<le> length (reactions (document [waning]))"
    using e extract_model_one_direction
      [where ops = plain_sympy and m = "document [waning]" and rep = "{}" and visit = "[]"]
    by blast
  then show ?thesis using e t(2) by (simp add: waning_def)
qed

text \<open>
  Claim C7 against the code.  For a rate law that is not a bare symbol the test on
  the derivative always passes, whatever the derivative is: the rate law is divided
  by the symbol of every compartment of volume 1.0 that occurs in it, linear in the
  symbol or not, and the symbol is not substituted.  An example is the rate law
  \<open>k*S*c**2\<close>.
\<close>

theorem substitute_compartment_guard:
  "(\<forall>n. e \<noteq> Symbol n)
   \<longrightarrow> substitute_compartment ops (c, v) e
       = (if c \<in> free_symbols ops e \<and> v = 1 then divide ops e c else subs ops e c v)"
  by (cases e) (auto simp: substitute_compartment_def expr_in_def)

theorem substitute_compartment_guard_witness:
  "(\<forall>n. Apply ''Mul'' [Symbol ''k'', Symbol ''S'', Apply ''Pow'' [Symbol ''c'', Number 2]]
         \<noteq> Symbol n)
   \<and> substitute_compartment plain_sympy (''c'', 1)
       (Apply ''Mul'' [Symbol ''k'', Symbol ''S'', Apply ''Pow'' [Symbol ''c'', Number 2]])
     = Apply ''Mul''
         [Apply ''Mul'' [Symbol ''k'', Symbol ''S'', Apply ''Pow'' [Symbol ''c'', Number 2]],
          Apply ''Pow'' [Symbol ''c'', Number (- 1)]]
   \<and> substitute_compartment plain_sympy (''c'', 1)
       (Apply ''Mul'' [Symbol ''k'', Symbol ''S'', Apply ''Pow'' [Symbol ''c'', Number 2]])
     \<noteq> subs plain_sympy
         (Apply ''Mul'' [Symbol ''k'', Symbol ''S'', Apply ''Pow'' [Symbol ''c'', Number 2]])
         ''c'' 1"
  using substitute_compartment_guard
          [of "Apply ''Mul'' [Symbol ''k'', Symbol ''S'', Apply ''Pow'' [Symbol ''c'', Number 2]]"
              plain_sympy "''c''" 1]
  by (simp add: plain_sympy_def)

section \<open>Facts about the Petri net exporters\<close>

lemma lookup_keys_map:
  "lookup_keys vmap ks = Inr hs \<Longrightarrow> map vmap ks = map Some hs"
  unfolding lookup_keys_def
  by (induction ks arbitrary: hs) (auto split: option.splits sum.splits)

lemma enumerate_list_nth:
  "i < length xs \<Longrightarrow> enumerate_list xs ! i = (i, xs ! i)"
  by (simp add: enumerate_list_def)

lemma length_enumerate_list: "length (enumerate_list xs) = length xs"
  by (simp add: enumerate_list_def)

lemma enumerate_list_snoc:
  "enumerate_list (xs @ [x]) = enumerate_list xs @ [(length xs, x)]"
  by (simp add: enumerate_list_def)

lemma askenet_transition_lists:
  assumes "askenet_transition vmap it = Inr d"
  shows "map vmap (control (snd it) @ consumed (snd it)) = map Some (input_ids d)"
    and "map vmap (control (snd it) @ produced (snd it)) = map Some (output_ids d)"
    and "tid d = fst it + 1"
  using assms
  by (auto simp: askenet_transition_def split: sum.splits dest!: lookup_keys_map)

lemma AskeNetPetriNetModel_init_transitions:
  assumes "AskeNetPetriNetModel_init m = Inr self"
  shows "\<exists>ts. getattr self ''transitions'' = Inr (Transitions ts)
           \<and> length ts = length (transitions m)
           \<and> (\<forall>i < length (transitions m).
                 map (askenet_vmap m) (control (transitions m ! i) @ consumed (transitions m ! i))
                   = map Some (input_ids (ts ! i))
               \<and> map (askenet_vmap m) (control (transitions m ! i) @ produced (transitions m ! i))
                   = map Some (output_ids (ts ! i)))"
proof -
  obtain ts where ts: "map_err (askenet_transition (askenet_vmap m))
                         (enumerate_list (transitions m)) = Inr ts"
      "self = [(''states'', States (map state_name (variables m))),
               (''transitions'', Transitions ts),
               (''parameters'', Parameters (param_values m))]"
    using assms by (auto simp: AskeNetPetriNetModel_init_def split: sum.splits)
  have la: "list_all2 (\<lambda>it d. askenet_transition (askenet_vmap m) it = Inr d)
              (enumerate_list (transitions m)) ts"
    using ts(1) by (rule map_err_list_all2)
  then have len: "length ts = length (transitions m)"
    by (simp add: list_all2_lengthD[symmetric] length_enumerate_list)
  have each: "askenet_transition (askenet_vmap m) (i, transitions m ! i) = Inr (ts ! i)"
    if "i < length (transitions m)" for i
    using list_all2_nthD[OF la, of i] that
    by (simp add: length_enumerate_list enumerate_list_nth)
  have g: "getattr self ''transitions'' = Inr (Transitions ts)"
    by (simp add: ts(2) getattr_def)
  show ?thesis
    using g len askenet_transition_lists(1,2)[OF each] by auto
qed

lemma arcs_of_append: "arcs_of (xs @ ys) n = arcs_of xs n @ arcs_of ys n"
  by (simp add: arcs_of_def)

lemma arcs_of_tagged: "arcs_of (map (\<lambda>h. (h, j)) hs) n = (if j = n then hs else [])"
  by (induction hs) (auto simp: arcs_of_def)

lemma petri_transition_arcs:
  assumes "petri_transition vmap it acc = Inr acc'"
  shows "map Some (arcs_of (fst acc') n)
           = map Some (arcs_of (fst acc) n)
             @ (if fst it + 1 = n then map vmap (control (snd it) @ consumed (snd it)) else [])"
    and "map Some (arcs_of (snd acc') n)
           = map Some (arcs_of (snd acc) n)
             @ (if fst it + 1 = n then map vmap (control (snd it) @ produced (snd it)) else [])"
  using assms
  by (auto simp: petri_transition_def arcs_of_append arcs_of_tagged
      split: sum.splits dest!: lookup_keys_map)

lemma petri_for_each_arcs:
  assumes "for_each (petri_transition vmap) its acc = Inr acc'"
  shows "map Some (arcs_of (fst acc') n)
           = map Some (arcs_of (fst acc) n)
             @ concat (map (\<lambda>it. if fst it + 1 = n
                                  then map vmap (control (snd it) @ consumed (snd it)) else [])
                         its)
         \<and> map Some (arcs_of (snd acc') n)
           = map Some (arcs_of (snd acc) n)
             @ concat (map (\<lambda>it. if fst it + 1 = n
                                  then map vmap (control (snd it) @ produced (snd it)) else [])
                         its)"
  using assms
proof (induction its arbitrary: acc)
  case Nil
  then show ?case by simp
next
  case (Cons it its)
  then obtain acc1 where s: "petri_transition vmap it acc = Inr acc1"
      "for_each (petri_transition vmap) its acc1 = Inr acc'"
    by (auto split: sum.splits)
  show ?case
    using Cons.IH[OF s(2)] petri_transition_arcs[OF s(1), of n] by simp
qed

lemma concat_enumerate_pick:
  "i < length ts \<Longrightarrow>
   concat (map (\<lambda>it. if fst it + 1 = i + 1 then F (snd it) else []) (enumerate_list ts))
     = F (ts ! i)"
proof (induction ts rule: rev_induct)
  case Nil
  then show ?case by simp
next
  case (snoc t ts)
  have z: "concat (map (\<lambda>it. if fst it + 1 = i + 1 then F (snd it) else [])
                    (enumerate_list ts)) = []" if "\<not> i < length ts"
    using that by (auto simp: enumerate_list_def in_set_zip)
  show ?case
  proof (cases "i < length ts")
    case True
    then show ?thesis using snoc.IH by (simp add: enumerate_list_snoc nth_append)
  next
    case False
    then have "i = length ts" using snoc.prems by simp
    then show ?thesis using z[OF False] by (simp add: enumerate_list_snoc)
  qed
qed

lemma PetriNetModel_init_arcs:
  assumes "PetriNetModel_init m = Inr self"
  shows "\<exists>ins outs. getattr self ''inputs'' = Inr (Arcs ins)
           \<and> getattr self ''outputs'' = Inr (Arcs outs)
           \<and> (\<forall>i < length (transitions m).
                 map (map_of (petri_vmap m))
                     (control (transitions m ! i) @ consumed (transitions m ! i))
                   = map Some (arcs_of ins (i + 1))
               \<and> map (map_of (petri_vmap m))
                     (control (transitions m ! i) @ produced (transitions m ! i))
                   = map Some (arcs_of outs (i + 1)))"
proof -
  obtain arcs where a: "for_each (petri_transition (map_of (petri_vmap m)))
             (enumerate_list (transitions m)) ([], []) = Inr arcs"
      "self = [(''states'', States (map state_name (variables m))),
               (''transitions'', TransitionNames (map (\<lambda>i. i + 1) [0..<length (transitions m)])),
               (''inputs'', Arcs (fst arcs)),
               (''outputs'', Arcs (snd arcs)),
               (''vmap'', Vmap (petri_vmap m))]"
    using assms by (auto simp: PetriNetModel_init_def split: sum.splits)
  have g: "getattr self ''inputs'' = Inr (Arcs (fst arcs))"
      "getattr self ''outputs'' = Inr (Arcs (snd arcs))"
    by (simp_all add: a(2) getattr_def)
  have e: "map (map_of (petri_vmap m))
                     (control (transitions m ! i) @ consumed (transitions m ! i))
                   = map Some (arcs_of (fst arcs) (i + 1))
               \<and> map (map_of (petri_vmap m))
                     (control (transitions m ! i) @ produced (transitions m ! i))
                   = map Some (arcs_of (snd arcs) (i + 1))"
    if "i < length (transitions m)" for i
    using petri_for_each_arcs[OF a(1), of "i + 1"]
      concat_enumerate_pick[OF that,
        of "\<lambda>t. map (map_of (petri_vmap m)) (control t @ consumed t)"]
      concat_enumerate_pick[OF that,
        of "\<lambda>t. map (map_of (petri_vmap m)) (control t @ produced t)"]
    by (simp add: arcs_of_def)
  show ?thesis using g e by blast
qed


lemma AskeNetPetriNetModel_init_sir:
  "AskeNetPetriNetModel_init sir_model =
     Inr [(''states'', States [''S'', ''I'', ''R'']),
          (''transitions'',
           Transitions
             [\<lparr>tid = 1, input_ids = [''I'', ''S''], output_ids = [''I'', ''I''],
               rate = Some (''I*S*k'',
                            ''<apply><times/><ci>I</ci><ci>S</ci><ci>k</ci></apply>'')\<rparr>,
              \<lparr>tid = 2, input_ids = [''I''], output_ids = [''R''], rate = None\<rparr>]),
          (''parameters'', Parameters [(''k'', 3 / 10)])]"
  by (simp add: AskeNetPetriNetModel_init_def sir_model_def enumerate_list_def
        askenet_transition_def askenet_vmap_def lookup_keys_def state_name_def upt_rec)

lemma PetriNetModel_init_sir:
  "PetriNetModel_init sir_model =
     Inr [(''states'', States [''S'', ''I'', ''R'']),
          (''transitions'', TransitionNames [1, 2]),
          (''inputs'', Arcs [(2, 1), (1, 1), (2, 2)]),
          (''outputs'', Arcs [(2, 1), (2, 1), (3, 2)]),
          (''vmap'', Vmap [(''S'', 1), (''I'', 2), (''R'', 3)])]"
  by (simp add: PetriNetModel_init_def sir_model_def enumerate_list_def
        petri_transition_def petri_vmap_def dict_of_def lookup_keys_def state_name_def upt_rec)

text \<open>
  Claim C9.  On every object that \<open>AskeNetPetriNetModel.__init__\<close> returns, \<open>to_json\<close>
  raises when it reads the attribute \<open>inputs\<close>, which the constructor never assigns,
  and so do \<open>to_pydantic\<close>, \<open>to_json_str\<close> and \<open>to_json_file\<close>, which call it first.
\<close>

theorem askenet_to_json_raises:
  "AskeNetPetriNetModel_init m = Inr self
   \<longrightarrow> to_json self = Inl (AttributeError ''inputs'')
       \<and> to_pydantic validate self = Inl (AttributeError ''inputs'')
       \<and> to_json_str dumps self = Inl (AttributeError ''inputs'')
       \<and> to_json_file dump self fname = Inl (AttributeError ''inputs'')"
  by (auto simp: AskeNetPetriNetModel_init_def to_json_def to_pydantic_def to_json_str_def
        to_json_file_def getattr_def split: sum.splits)

lemma petri_to_json_returns:
  "PetriNetModel_init m = Inr self \<Longrightarrow> \<exists>js. to_json self = Inr js"
  by (auto simp: PetriNetModel_init_def to_json_def getattr_def split: sum.splits)

theorem askenet_to_json_raises_witness:
  "AskeNetPetriNetModel_init sir_model =
     Inr [(''states'', States [''S'', ''I'', ''R'']),
          (''transitions'',
           Transitions
             [\<lparr>tid = 1, input_ids = [''I'', ''S''], output_ids = [''I'', ''I''],
               rate = Some (''I*S*k'',
                            ''<apply><times/><ci>I</ci><ci>S</ci><ci>k</ci></apply>'')\<rparr>,
              \<lparr>tid = 2, input_ids = [''I''], output_ids = [''R''], rate = None\<rparr>]),
          (''parameters'', Parameters [(''k'', 3 / 10)])]
   \<and> to_json
         [(''states'', States [''S'', ''I'', ''R'']),
          (''transitions'',
           Transitions
             [\<lparr>tid = 1, input_ids = [''I'', ''S''], output_ids = [''I'', ''I''],
               rate = Some (''I*S*k'',
                            ''<apply><times/><ci>I</ci><ci>S</ci><ci>k</ci></apply>'')\<rparr>,
              \<lparr>tid = 2, input_ids = [''I''], output_ids = [''R''], rate = None\<rparr>]),
          (''parameters'', Parameters [(''k'', 3 / 10)])]
       = Inl (AttributeError ''inputs'')"
  using AskeNetPetriNetModel_init_sir
    askenet_to_json_raises[THEN mp, OF AskeNetPetriNetModel_init_sir, THEN conjunct1]
  by (rule conjI)

text \<open>
  Claim C8, as the code has it.  In both exporters the inputs of a transition are its
  controllers followed by what it consumes, and its outputs are its controllers
  followed by what it produces, each looked up in the map of the states: every
  controller is in both lists, the subject among the inputs and the outcome among
  the outputs, and nothing else is in either list.
\<close>

theorem petri_net_arcs:
  "(AskeNetPetriNetModel_init m = Inr self
    \<longrightarrow> (\<exists>ts. getattr self ''transitions'' = Inr (Transitions ts)
           \<and> length ts = length (transitions m)
           \<and> (\<forall>i < length (transitions m).
                 map (askenet_vmap m) (control (transitions m ! i) @ consumed (transitions m ! i))
                   = map Some (input_ids (ts ! i))
               \<and> map (askenet_vmap m) (control (transitions m ! i) @ produced (transitions m ! i))
                   = map Some (output_ids (ts ! i)))))
   \<and> (PetriNetModel_init m = Inr self'
    \<longrightarrow> (\<exists>ins outs. getattr self' ''inputs'' = Inr (Arcs ins)
           \<and> getattr self' ''outputs'' = Inr (Arcs outs)
           \<and> (\<forall>i < length (transitions m).
                 map (map_of (petri_vmap m))
                     (control (transitions m ! i) @ consumed (transitions m ! i))
                   = map Some (arcs_of ins (i + 1))
               \<and> map (map_of (petri_vmap m))
                     (control (transitions m ! i) @ produced (transitions m ! i))
                   = map Some (arcs_of outs (i + 1)))))"
  using AskeNetPetriNetModel_init_transitions PetriNetModel_init_arcs by blast

theorem petri_net_arcs_witness:
  "input_ids
     \<lparr>tid = 1, input_ids = [''I'', ''S''], output_ids = [''I'', ''I''],
      rate = Some (''I*S*k'', ''<apply><times/><ci>I</ci><ci>S</ci><ci>k</ci></apply>'')\<rparr>
     = [''I'', ''S'']
   \<and> map (askenet_vmap sir_model)
         (control (transitions sir_model ! 0) @ consumed (transitions sir_model ! 0))
       = map Some [''I'', ''S'']
   \<and> map (askenet_vmap sir_model)
         (control (transitions sir_model ! 0) @ produced (transitions sir_model ! 0))
       = map Some [''I'', ''I'']
   \<and> map (map_of (petri_vmap sir_model))
         (control (transitions sir_model ! 0) @ consumed (transitions sir_model ! 0))
       = map Some (arcs_of [(2, 1), (1, 1), (2, 2)] 1)
   \<and> map (map_of (petri_vmap sir_model))
         (control (transitions sir_model ! 0) @ produced (transitions sir_model ! 0))
       = map Some (arcs_of [(2, 1), (2, 1), (3, 2)] 1)"
proof -
  have n: "0 < length (transitions sir_model)" by (simp add: sir_model_def)
  note t = petri_net_arcs[of sir_model _ _]
  from t[THEN conjunct1, THEN mp, OF AskeNetPetriNetModel_init_sir] n
  have a: "map (askenet_vmap sir_model)
         (control (transitions sir_model ! 0) @ consumed (transitions sir_model ! 0))
       = map Some [''I'', ''S'']
     \<and> map (askenet_vmap sir_model)
         (control (transitions sir_model ! 0) @ produced (transitions sir_model ! 0))
       = map Some [''I'', ''I'']"
    by (auto simp: getattr_def)
  from t[THEN conjunct2, THEN mp, OF PetriNetModel_init_sir] n
  have b: "map (map_of (petri_vmap sir_model))
         (control (transitions sir_model ! 0) @ consumed (transitions sir_model ! 0))
       = map Some (arcs_of [(2, 1), (1, 1), (2, 2)] 1)
     \<and> map (map_of (petri_vmap sir_model))
         (control (transitions sir_model ! 0) @ produced (transitions sir_model ! 0))
       = map Some (arcs_of [(2, 1), (2, 1), (3, 2)] 1)"
    by (auto simp: getattr_def)
  show ?thesis using a b by simp
qed

text \<open>
  Claim C8 as it is written has the outcome only among the outputs.  The infection
  \<open>S \<rightarrow> I\<close> controlled by \<open>I\<close> is exported with the inputs \<open>I\<close> and \<open>S\<close> and the
  outputs \<open>I\<close> and \<open>I\<close>: its outcome \<open>I\<close>, the state 2, is among its inputs, in both
  exporters.
\<close>

theorem petri_net_arcs_outcome_counterexample:
  "AskeNetPetriNetModel_init sir_model =
     Inr [(''states'', States [''S'', ''I'', ''R'']),
          (''transitions'',
           Transitions
             [\<lparr>tid = 1, input_ids = [''I'', ''S''], output_ids = [''I'', ''I''],
               rate = Some (''I*S*k'',
                            ''<apply><times/><ci>I</ci><ci>S</ci><ci>k</ci></apply>'')\<rparr>,
              \<lparr>tid = 2, input_ids = [''I''], output_ids = [''R''], rate = None\<rparr>]),
          (''parameters'', Parameters [(''k'', 3 / 10)])]
   \<and> produced (transitions sir_model ! 0) = [''I'']
   \<and> ''I'' \<in> set [''I'', ''S'']
   \<and> PetriNetModel_init sir_model =
     Inr [(''states'', States [''S'', ''I'', ''R'']),
          (''transitions'', TransitionNames [1, 2]),
          (''inputs'', Arcs [(2, 1), (1, 1), (2, 2)]),
          (''outputs'', Arcs [(2, 1), (2, 1), (3, 2)]),
          (''vmap'', Vmap [(''S'', 1), (''I'', 2), (''R'', 3)])]
   \<and> arcs_of [(2, 1), (1, 1), (2, 2)] 1 = [2, 1]"
  using AskeNetPetriNetModel_init_sir PetriNetModel_init_sir
  by (simp add: sir_model_def arcs_of_def)

section \<open>Facts about the grounding normalization\<close>






















end
